theory Spec2Isabelle
  imports Complex_Main
begin

section \<open>Data model\<close>

text \<open>
  Python exceptions that the modelled functions can raise. A function that may raise
  returns \<open>py_error + 'a\<close>, with \<open>Inl\<close> for the exception.
\<close>

datatype py_error = KeyError | IndexError | ValueError | NotFittedError

text \<open>
  One row of the behaviour table built by \<open>BehaviorAnalyzer.analyze_user_behavior\<close>
  (the dictionary stored under each user). Python floats are modelled as reals.
\<close>

record profile =
  avg_response_time :: real
  message_frequency :: int
  avg_message_length :: real
  sentiment_mean :: real
  engagement_level :: string
  active_hours :: int
  weekend_activity :: real

text \<open>
  The dictionary built by \<open>RedditDatingAnalysis.get_user_preferences\<close>; its keys are
  \<open>communication_style\<close>, \<open>response_time\<close> and \<open>engagement_level\<close>.
\<close>

record preferences =
  pref_communication_style :: string
  pref_response_time :: real
  pref_engagement_level :: string

text \<open>
  The nested dictionary returned by \<open>BehaviorAnalyzer.get_user_profile\<close>, flattened:
  \<open>messaging_patterns\<close> holds \<open>response_time\<close> and \<open>message_frequency\<close>,
  \<open>engagement_profile\<close> holds \<open>engagement_level\<close>, \<open>activity_pattern\<close> holds
  \<open>active_hours\<close> and \<open>weekend_activity\<close>.
\<close>

record profile_view =
  view_response_time :: string
  view_message_frequency :: int
  view_engagement_level :: string
  view_communication_style :: string
  view_active_hours :: int
  view_weekend_activity :: string

section \<open>Double-precision arithmetic\<close>

text \<open>
  Python floats and the numbers of a pandas column are IEEE doubles, and every arithmetic
  operation on them returns the double nearest to the exact result, a tie going to the
  even significand.
  \<open>binade x\<close> is the exponent \<open>k\<close> with \<open>2^k \<le> x < 2^(k+1)\<close> of a positive \<open>x\<close>
  (\<open>log2_up\<close> searches it from 1 upwards, \<open>log2_down\<close> from 1 downwards), \<open>ulp x\<close>
  the distance between neighbouring doubles around \<open>x\<close> (53 significant bits, the
  subnormal spacing below \<open>2^-1022\<close>), and \<open>round_double\<close> the rounding itself.
  Overflow is not modelled: no operation of the engagement score overflows on finite
  doubles, and the profile fields that are formatted are far below the largest double.
\<close>

text \<open>The integer nearest to a real, an exact tie going to the even one.\<close>

definition round_half_even :: "real \<Rightarrow> int" where
  "round_half_even x =
     (let f = \<lfloor>x\<rfloor>; d = x - of_int f
      in if d < 1 / 2 then f else if d > 1 / 2 then f + 1
         else if even f then f else f + 1)"

function log2_up :: "real \<Rightarrow> int" where
  "log2_up x = (if 2 \<le> x then log2_up (x / 2) + 1 else 0)"
  by pat_completeness auto
termination
proof (relation "measure (\<lambda>x. nat \<lfloor>x\<rfloor>)")
  show "wf (measure (\<lambda>x::real. nat \<lfloor>x\<rfloor>))" by simp
next
  fix x :: real
  assume "2 \<le> x"
  then have "\<lfloor>x / 2\<rfloor> < \<lfloor>x\<rfloor>" by linarith
  moreover have "0 < \<lfloor>x\<rfloor>" using \<open>2 \<le> x\<close> by linarith
  ultimately show "(x / 2, x) \<in> measure (\<lambda>x. nat \<lfloor>x\<rfloor>)" by simp
qed

function log2_down :: "real \<Rightarrow> int" where
  "log2_down x = (if 0 < x \<and> x < 1 then log2_down (x * 2) - 1 else 0)"
  by pat_completeness auto
termination
proof (relation "measure (\<lambda>x. nat \<lceil>1 / x\<rceil>)")
  show "wf (measure (\<lambda>x::real. nat \<lceil>1 / x\<rceil>))" by simp
next
  fix x :: real
  assume a: "0 < x \<and> x < 1"
  define t where "t = 1 / x"
  have t1: "1 < t" using a by (simp add: t_def)
  have c1: "t \<le> real_of_int \<lceil>t\<rceil>" by (rule le_of_int_ceiling)
  then have "1 < real_of_int \<lceil>t\<rceil>" using t1 by linarith
  then have "1 < \<lceil>t\<rceil>" by simp
  then have "2 \<le> \<lceil>t\<rceil>" by simp
  then have c2: "2 \<le> real_of_int \<lceil>t\<rceil>" by simp
  from c1 c2 have "t / 2 \<le> real_of_int \<lceil>t\<rceil> - 1" by linarith
  then have "t / 2 \<le> real_of_int (\<lceil>t\<rceil> - 1)" by simp
  then have "\<lceil>t / 2\<rceil> \<le> \<lceil>t\<rceil> - 1" by (rule ceiling_le)
  then have l: "nat \<lceil>t / 2\<rceil> < nat \<lceil>t\<rceil>" using c2 by linarith
  have e: "1 / (x * 2) = t / 2" by (simp add: t_def)
  have "nat \<lceil>1 / (x * 2)\<rceil> < nat \<lceil>1 / x\<rceil>"
    using l unfolding e t_def [symmetric] .
  then show "(x * 2, x) \<in> measure (\<lambda>x. nat \<lceil>1 / x\<rceil>)" by simp
qed

declare log2_up.simps [simp del]

declare log2_down.simps [simp del]

definition binade :: "real \<Rightarrow> int" where
  "binade x = (if 1 \<le> x then log2_up x else log2_down x)"

definition ulp :: "real \<Rightarrow> real" where
  "ulp x = 2 powi (max (binade \<bar>x\<bar>) (- 1022) - 52)"

definition round_double :: "real \<Rightarrow> real" where
  "round_double x = real_of_int (round_half_even (x / ulp x)) * ulp x"

section \<open>behavior\_analyzer.py: style label and profile lookup\<close>

text \<open>\<open>BehaviorAnalyzer._get_communication_style\<close>: the labels are capitalised.\<close>

definition get_communication_style :: "profile \<Rightarrow> string" where
  "get_communication_style p =
     (if sentiment_mean p > 0.2 then ''Positive''
      else if sentiment_mean p < - 0.2 then ''Critical''
      else ''Neutral'')"

text \<open>
  The lambda of \<open>DataProcessor._extract_communication_features\<close>, applied to each
  value of the \<open>sentiment_polarity\<close> column: the labels are lower case.
\<close>

definition extract_communication_features :: "real \<Rightarrow> string" where
  "extract_communication_features x =
     (if x > 0.2 then ''positive'' else (if x < - 0.2 then ''critical'' else ''neutral''))"

text \<open>\<open>str.lower\<close> on the ASCII letters the labels are made of.\<close>

definition lower_char :: "char \<Rightarrow> char" where
  "lower_char c =
     (case map_of (zip ''ABCDEFGHIJKLMNOPQRSTUVWXYZ'' ''abcdefghijklmnopqrstuvwxyz'') c of
        Some d \<Rightarrow> d
      | None \<Rightarrow> c)"

definition lower :: "string \<Rightarrow> string" where
  "lower s = map lower_char s"

text \<open>
  Python's format specification \<open>.1f\<close> on a double: one digit after the point, the
  exact value of the double rounded to the nearest tenth, an exact tie going to the even
  digit. So 0.45, whose double lies above it, reads \<open>0.5\<close>, and 0.25 reads \<open>0.2\<close>.
\<close>

fun show_nat :: "nat \<Rightarrow> string" where
  "show_nat n =
     (if n < 10 then [''0123456789'' ! n]
      else show_nat (n div 10) @ [''0123456789'' ! (n mod 10)])"

declare show_nat.simps [simp del]

definition format_1f :: "real \<Rightarrow> string" where
  "format_1f x =
     (let n = nat (round_half_even (\<bar>round_double x\<bar> * 10))
      in (if x < 0 then ''-'' else '''') @ show_nat (n div 10) @ ''.'' @ show_nat (n mod 10))"

text \<open>
  \<open>BehaviorAnalyzer.get_user_profile\<close>. The behaviour table is a data frame indexed by
  user; it is modelled as an association list in index order, \<open>user not in
  behavior_data.index\<close> as a failed lookup.
\<close>

definition get_user_profile :: "string \<Rightarrow> (string \<times> profile) list \<Rightarrow> profile_view" where
  "get_user_profile user behavior_data =
     (case map_of behavior_data user of
        None \<Rightarrow>
          \<lparr> view_response_time = ''0 hours'', view_message_frequency = 0,
            view_engagement_level = ''medium'',
            view_communication_style = ''neutral'',
            view_active_hours = 0, view_weekend_activity = ''0%'' \<rparr>
      | Some p \<Rightarrow>
          \<lparr> view_response_time = format_1f (avg_response_time p) @ '' hours'',
            view_message_frequency = message_frequency p,
            view_engagement_level = engagement_level p,
            view_communication_style = get_communication_style p,
            view_active_hours = active_hours p,
            view_weekend_activity = format_1f (round_double (weekend_activity p) * 100) @ ''%'' \<rparr>)"

section \<open>main.py: match scoring\<close>

text \<open>The dictionary \<open>{'low': 0, 'medium': 1, 'high': 2}\<close>; a missing key raises.\<close>

definition engagement_rank :: "string \<Rightarrow> py_error + int" where
  "engagement_rank s =
     (if s = ''low'' then Inr 0 else if s = ''medium'' then Inr 1
      else if s = ''high'' then Inr 2 else Inl KeyError)"

text \<open>The dictionary \<open>{'low': 1, 'medium': 3, 'high': 5}\<close>.\<close>

definition expected_freq :: "string \<Rightarrow> py_error + int" where
  "expected_freq s =
     (if s = ''low'' then Inr 1 else if s = ''medium'' then Inr 3
      else if s = ''high'' then Inr 5 else Inl KeyError)"

text \<open>Communication style match (weight 35).\<close>

definition style_component :: "string \<Rightarrow> string \<Rightarrow> real" where
  "style_component user_style pref_style =
     (if user_style = pref_style then 35
      else if (user_style = ''neutral'' \<and> pref_style \<noteq> ''critical'') \<or>
              (pref_style = ''neutral'' \<and> user_style \<noteq> ''critical'')
      then 35 * 0.5
      else 0)"

text \<open>Response time match (weight 25).\<close>

definition time_score :: "real \<Rightarrow> real" where
  "time_score response_time_diff =
     (if response_time_diff \<le> 1 then 1.0
      else if response_time_diff \<le> 3 then 0.8
      else if response_time_diff \<le> 6 then 0.6
      else if response_time_diff \<le> 12 then 0.4
      else max 0 (1 - response_time_diff / 24))"

text \<open>Engagement level match (weight 25): the dictionary is read only in the \<open>elif\<close>.\<close>

definition engagement_component :: "string \<Rightarrow> string \<Rightarrow> py_error + real" where
  "engagement_component user_level pref_level =
     (if user_level = pref_level then Inr 25
      else case engagement_rank user_level of
             Inl e \<Rightarrow> Inl e
           | Inr a \<Rightarrow>
               (case engagement_rank pref_level of
                  Inl e \<Rightarrow> Inl e
                | Inr b \<Rightarrow> Inr (if \<bar>a - b\<bar> = 1 then 25 * 0.5 else 0)))"

text \<open>Activity pattern match (weight 15).\<close>

definition activity_component :: "int \<Rightarrow> string \<Rightarrow> py_error + real" where
  "activity_component user_msg_freq pref_level =
     (case expected_freq pref_level of
        Inl e \<Rightarrow> Inl e
      | Inr expected \<Rightarrow>
          Inr (15 * max 0 (1 - real_of_int \<bar>user_msg_freq - expected\<bar> / 5)))"

text \<open>The two penalty multipliers, applied in the source's order.\<close>

definition apply_penalties :: "preferences \<Rightarrow> profile \<Rightarrow> real \<Rightarrow> real" where
  "apply_penalties prefs user_data score =
     (let s1 = (if avg_response_time user_data > 24 \<and> pref_response_time prefs < 6
                then score * 0.8 else score)
      in if sentiment_mean user_data < - 0.5 \<and> pref_communication_style prefs = ''positive''
         then s1 * 0.9 else s1)"

text \<open>The body of the \<open>try\<close> block of \<open>calculate_match_score\<close>.\<close>

definition score_body :: "preferences \<Rightarrow> profile \<Rightarrow> py_error + real" where
  "score_body prefs user_data =
     (let user_style = get_communication_style user_data;
          s1 = 0 + style_component user_style (pref_communication_style prefs);
          response_time_diff = \<bar>avg_response_time user_data - pref_response_time prefs\<bar>;
          s2 = s1 + 25 * time_score response_time_diff
      in case engagement_component (engagement_level user_data) (pref_engagement_level prefs) of
           Inl e \<Rightarrow> Inl e
         | Inr eng \<Rightarrow>
             (case activity_component (message_frequency user_data) (pref_engagement_level prefs) of
                Inl e \<Rightarrow> Inl e
              | Inr act \<Rightarrow>
                  Inr (min 100 (max 0 (apply_penalties prefs user_data (s2 + eng + act))))))"

text \<open>\<open>calculate_match_score\<close>: any exception of the body is caught and gives 0.\<close>

definition calculate_match_score :: "preferences \<Rightarrow> profile \<Rightarrow> real" where
  "calculate_match_score prefs user_data =
     (case score_body prefs user_data of Inl e \<Rightarrow> 0 | Inr score \<Rightarrow> score)"

record match_result =
  match_user :: string
  match_score :: real
  match_profile :: profile_view

text \<open>
  \<open>find_matches\<close>: the loop runs over the index of the behaviour table and reads each
  row back with \<open>loc\<close>; the list is then sorted by score, highest first (Python's sort
  is stable, also with \<open>reverse=True\<close>), and cut to \<open>n_recommendations\<close> entries.
\<close>

fun score_all :: "preferences \<Rightarrow> (string \<times> profile) list \<Rightarrow> string list \<Rightarrow>
    py_error + match_result list" where
  "score_all prefs behavior_data [] = Inr []"
| "score_all prefs behavior_data (user # users) =
     (case map_of behavior_data user of
        None \<Rightarrow> Inl KeyError
      | Some user_data \<Rightarrow>
          (case score_all prefs behavior_data users of
             Inl e \<Rightarrow> Inl e
           | Inr matches \<Rightarrow>
               Inr (\<lparr> match_user = user,
                      match_score = calculate_match_score prefs user_data,
                      match_profile = get_user_profile user behavior_data \<rparr> # matches)))"

text \<open>The slice \<open>xs[:n]\<close>: a negative \<open>n\<close> counts from the end.\<close>

definition slice_to :: "int \<Rightarrow> 'a list \<Rightarrow> 'a list" where
  "slice_to n xs = (if 0 \<le> n then take (nat n) xs else take (length xs - nat (- n)) xs)"

definition find_matches :: "preferences \<Rightarrow> (string \<times> profile) list \<Rightarrow> int \<Rightarrow>
    py_error + match_result list" where
  "find_matches prefs behavior_data n_recommendations =
     (case score_all prefs behavior_data (map fst behavior_data) of
        Inl e \<Rightarrow> Inl e
      | Inr matches \<Rightarrow>
          Inr (slice_to n_recommendations (sort_key (\<lambda>m. - match_score m) matches)))"

text \<open>The profile and the preferences of the worked example.\<close>

definition example_profile :: profile where
  "example_profile =
     \<lparr> avg_response_time = 1, message_frequency = 5, avg_message_length = 0,
       sentiment_mean = 0.3, engagement_level = ''high'', active_hours = 0,
       weekend_activity = 0 \<rparr>"

definition example_preferences :: preferences where
  "example_preferences =
     \<lparr> pref_communication_style = ''positive'', pref_response_time = 1,
       pref_engagement_level = ''high'' \<rparr>"

text \<open>A profile whose engagement level is not a key of the scorer's dictionaries.\<close>

definition bad_profile :: profile where
  "bad_profile = example_profile\<lparr>engagement_level := ''unknown''\<rparr>"

section \<open>data\_processing.py: comment features\<close>

text \<open>
  A processed comment, as built by \<open>_process_comments\<close>. A pandas timestamp counts
  nanoseconds since the epoch.
\<close>

type_synonym timestamp = int

record comment =
  comment_author :: string
  comment_text :: string
  comment_score :: int
  created_utc :: timestamp
  word_count :: nat
  sentiment :: real

text \<open>
  The dictionary returned by \<open>_extract_comment_features\<close>; its key
  \<open>avg_response_time\<close> is the field \<open>post_avg_response_time\<close> here.
\<close>

record comment_features =
  avg_comment_length :: real
  total_comments :: nat
  avg_words_per_comment :: real
  comment_sentiment_mean :: real
  post_avg_response_time :: real

text \<open>\<open>Timedelta.total_seconds\<close> of a difference of two timestamps.\<close>

definition total_seconds :: "int \<Rightarrow> real" where
  "total_seconds d = real_of_int d / 1000000000"

text \<open>
  \<open>np.mean\<close> of a list. The source calls it on non-empty lists only (on an empty list
  numpy answers NaN, which this model does not have).
\<close>

definition mean :: "real list \<Rightarrow> real" where
  "mean xs = sum_list xs / real (length xs)"

text \<open>\<open>_calculate_response_times\<close>: the differences are read by index, from 1 on.\<close>

definition calculate_response_times :: "comment list \<Rightarrow> real list" where
  "calculate_response_times comments =
     (let times = sort (map created_utc comments)
      in map (\<lambda>i. total_seconds (times ! i - times ! (i - 1)) / 3600) [1..<length times])"

definition get_default_comment_features :: comment_features where
  "get_default_comment_features =
     \<lparr> avg_comment_length = 0, total_comments = 0, avg_words_per_comment = 0,
       comment_sentiment_mean = 0, post_avg_response_time = 0 \<rparr>"

definition extract_comment_features :: "comment list \<Rightarrow> comment_features" where
  "extract_comment_features comments =
     (if comments = [] then get_default_comment_features
      else
        let comment_lengths = map (\<lambda>c. length (comment_text c)) comments;
            word_counts = map word_count comments;
            sentiments = map sentiment comments;
            response_times = calculate_response_times comments
        in \<lparr> avg_comment_length = mean (map real comment_lengths),
             total_comments = length comments,
             avg_words_per_comment = mean (map real word_counts),
             comment_sentiment_mean = mean sentiments,
             post_avg_response_time =
               (if response_times \<noteq> [] then mean response_times else 0) \<rparr>)"

text \<open>
  The response-time rule in the words of the specification: for each consecutive pair of
  the ascending timestamps, the difference in hours.
\<close>

fun spec_hour_deltas :: "timestamp list \<Rightarrow> real list" where
  "spec_hour_deltas (t1 # t2 # ts) =
     real_of_int (t2 - t1) / 1000000000 / 3600 # spec_hour_deltas (t2 # ts)"
| "spec_hour_deltas ts = []"

text \<open>Three comments posted at 2 h, 0 h and 5 h (in nanoseconds).\<close>

definition comment_at :: "timestamp \<Rightarrow> comment" where
  "comment_at t =
     \<lparr> comment_author = ''someone'', comment_text = ''ok'', comment_score = 1,
       created_utc = t, word_count = 1, sentiment = 0 \<rparr>"

definition example_comments :: "comment list" where
  "example_comments =
     [comment_at 7200000000000, comment_at 0, comment_at 18000000000000]"

section \<open>data\_processing.py: engagement levels\<close>

text \<open>The categories of the \<open>engagement_level\<close> column, in the order of the labels.\<close>

datatype engagement = Low | Medium | High

definition engagement_label :: "engagement \<Rightarrow> string" where
  "engagement_label b = (case b of Low \<Rightarrow> ''low'' | Medium \<Rightarrow> ''medium'' | High \<Rightarrow> ''high'')"

text \<open>The category codes pandas gives to the labels \<open>['low', 'medium', 'high']\<close>.\<close>

definition engagement_code :: "engagement \<Rightarrow> nat" where
  "engagement_code b = (case b of Low \<Rightarrow> 0 | Medium \<Rightarrow> 1 | High \<Rightarrow> 2)"

text \<open>A missing value (NaN) of a column is \<open>None\<close>; \<open>fillna\<close> replaces it.\<close>

definition fillna :: "'a \<Rightarrow> 'a option \<Rightarrow> 'a" where
  "fillna d v = (case v of None \<Rightarrow> d | Some x \<Rightarrow> x)"

text \<open>
  An engagement score. Dividing by zero in a pandas series gives infinity instead of
  raising, so the score of a row with \<open>1 + avg_response_time = 0\<close> is infinite.
\<close>

datatype score = Finite real | PosInf

text \<open>
  The score expression of \<open>_calculate_engagement_levels\<close>, for one row: a missing
  response time counts as 24, the two other columns as 0. The column values are doubles
  (a real input stands for the double nearest to it), and each of the eight operations
  \<open>((tc / 10) + (1 / (1 + art)) + ((csm + 1) / 2)) / 3\<close> is rounded.
\<close>

definition engagement_scores :: "real option \<Rightarrow> real option \<Rightarrow> real option \<Rightarrow> score" where
  "engagement_scores tc art csm =
     (let t = round_double (fillna 0 tc);
          r = round_double (fillna 24 art);
          m = round_double (fillna 0 csm);
          d = round_double (1 + r)
      in if d = 0 then PosInf
         else Finite
           (round_double
             (round_double
               (round_double (round_double (t / 10) + round_double (1 / d))
                + round_double (round_double (m + 1) / 2))
              / 3)))"

text \<open>
  \<open>pd.cut\<close> with the bins \<open>[-inf, 0.3, 0.7, inf]\<close>: the intervals are closed on the
  right, the edges are the doubles nearest to 0.3 and 0.7, and the last interval holds
  infinity.
\<close>

definition cut :: "score \<Rightarrow> engagement" where
  "cut s =
     (case s of
        PosInf \<Rightarrow> High
      | Finite x \<Rightarrow>
          if x \<le> round_double 0.3 then Low
          else if x \<le> round_double 0.7 then Medium else High)"

definition calculate_engagement_level :: "real option \<Rightarrow> real option \<Rightarrow> real option \<Rightarrow> engagement" where
  "calculate_engagement_level tc art csm = cut (engagement_scores tc art csm)"

text \<open>
  The engagement level of a post as \<open>preprocess_data\<close> computes it: the comment
  features are joined to the row, then \<open>_calculate_engagement_levels\<close> reads them.
\<close>

definition post_engagement_level :: "comment list \<Rightarrow> engagement" where
  "post_engagement_level comments =
     (let f = extract_comment_features comments
      in calculate_engagement_level (Some (real (total_comments f)))
           (Some (post_avg_response_time f)) (Some (comment_sentiment_mean f)))"

text \<open>
  The classifier in the words of the specification: the score over the reals with every
  missing input resolved to 0, and the bins at 0.3 and 0.7.
\<close>

definition spec_engagement_score :: "real option \<Rightarrow> real option \<Rightarrow> real option \<Rightarrow> real" where
  "spec_engagement_score tc art csm =
     (fillna 0 tc / 10 + 1 / (1 + fillna 0 art) + (fillna 0 csm + 1) / 2) / 3"

definition spec_engagement_bin :: "real \<Rightarrow> engagement" where
  "spec_engagement_bin s = (if s \<le> 0.3 then Low else if s \<le> 0.7 then Medium else High)"

text \<open>Eight neutral comments, a quarter of an hour apart.\<close>

definition eight_comments :: "comment list" where
  "eight_comments =
     map (\<lambda>k. comment_at (int k * 900000000000)) [0, 1, 2, 3, 4, 5, 6, 7]"

section \<open>Processed posts\<close>

text \<open>
  One row of the processed data frame, with the columns the modelled functions read.
  The columns carry the prefix \<open>row_\<close>; a numeric column that may hold NaN is an
  option.
\<close>

record post_row =
  row_author :: string
  row_total_comments :: "real option"
  row_avg_response_time :: "real option"
  row_comment_sentiment_mean :: "real option"
  row_avg_words_per_comment :: "real option"
  row_engagement_level :: engagement
  row_hour_posted :: nat
  row_is_weekend :: nat

text \<open>\<open>Series.unique\<close>: the distinct values in the order of their first appearance.\<close>

fun unique_from :: "'a list \<Rightarrow> 'a list \<Rightarrow> 'a list" where
  "unique_from seen [] = seen"
| "unique_from seen (x # xs) =
     (if x \<in> set seen then unique_from seen xs else unique_from (seen @ [x]) xs)"

definition unique :: "'a list \<Rightarrow> 'a list" where
  "unique xs = unique_from [] xs"

text \<open>The rows of one author: \<open>df[df['author'] == user]\<close>.\<close>

definition posts_of :: "string \<Rightarrow> post_row list \<Rightarrow> post_row list" where
  "posts_of user df = filter (\<lambda>r. row_author r = user) df"

section \<open>behavior\_analyzer.py: one profile per author\<close>

text \<open>
  \<open>Series.mode\<close> on the categorical column: the values that occur most often, sorted
  (pandas returns the modes in sorted order, for a categorical the order of its codes).
\<close>

definition mode :: "engagement list \<Rightarrow> engagement list" where
  "mode xs =
     (let top = fold max (map (count_list xs) xs) 0
      in sort_key engagement_code (remdups (filter (\<lambda>v. count_list xs v = top) xs)))"

text \<open>\<open>iloc[0]\<close>: the first element, \<open>IndexError\<close> on an empty series.\<close>

definition iloc0 :: "'a list \<Rightarrow> py_error + 'a" where
  "iloc0 xs = (case xs of [] \<Rightarrow> Inl IndexError | x # _ \<Rightarrow> Inr x)"

text \<open>
  The dictionary \<open>analyze_user_behavior\<close> stores for one user. The user comes from the
  author column, so \<open>user_posts\<close> is never empty and every mean is over a non-empty list.
\<close>

definition user_metrics :: "post_row list \<Rightarrow> py_error + profile" where
  "user_metrics user_posts =
     (case (if user_posts \<noteq> []
            then map_sum id engagement_label (iloc0 (mode (map row_engagement_level user_posts)))
            else Inr ''medium'') of
        Inl e \<Rightarrow> Inl e
      | Inr level \<Rightarrow>
          Inr \<lparr> avg_response_time = mean (map (\<lambda>r. fillna 0 (row_avg_response_time r)) user_posts),
                message_frequency = int (length user_posts),
                avg_message_length = mean (map (\<lambda>r. fillna 0 (row_avg_words_per_comment r)) user_posts),
                sentiment_mean = mean (map (\<lambda>r. fillna 0 (row_comment_sentiment_mean r)) user_posts),
                engagement_level = level,
                active_hours = int (length (remdups (map row_hour_posted user_posts))),
                weekend_activity = mean (map (\<lambda>r. real (row_is_weekend r)) user_posts) \<rparr>)"

fun analyze_users :: "post_row list \<Rightarrow> string list \<Rightarrow> py_error + (string \<times> profile) list" where
  "analyze_users df [] = Inr []"
| "analyze_users df (user # users) =
     (case user_metrics (posts_of user df) of
        Inl e \<Rightarrow> Inl e
      | Inr metrics \<Rightarrow>
          (case analyze_users df users of
             Inl e \<Rightarrow> Inl e
           | Inr behavior_metrics \<Rightarrow> Inr ((user, metrics) # behavior_metrics)))"

definition analyze_user_behavior :: "post_row list \<Rightarrow> py_error + (string \<times> profile) list" where
  "analyze_user_behavior df = analyze_users df (unique (map row_author df))"

text \<open>
  The tie-break in the words of the specification: among the most frequent bins, the one
  met first in post order.
\<close>

definition spec_mode_first_encountered :: "engagement list \<Rightarrow> engagement" where
  "spec_mode_first_encountered xs =
     hd (filter (\<lambda>v. count_list xs v = fold max (map (count_list xs) xs) 0) xs)"

text \<open>
  A processed post with five comments, a given average response time and a given mean
  comment sentiment; its engagement level is the one \<open>_calculate_engagement_levels\<close>
  computes from these columns.
\<close>

definition post_with :: "string \<Rightarrow> real \<Rightarrow> real \<Rightarrow> post_row" where
  "post_with a art csm =
     \<lparr> row_author = a, row_total_comments = Some 5, row_avg_response_time = Some art,
       row_comment_sentiment_mean = Some csm, row_avg_words_per_comment = Some 10,
       row_engagement_level = calculate_engagement_level (Some 5) (Some art) (Some csm),
       row_hour_posted = 9, row_is_weekend = 0 \<rparr>"

text \<open>Two posts of one author: the first is medium, the second low.\<close>

definition tied_posts :: "post_row list" where
  "tied_posts = [post_with ''ann'' 1 0, post_with ''ann'' 9 (- 0.6)]"

section \<open>data\_processing.py: response categories\<close>

datatype response_category = Quick | Moderate | Slow

text \<open>The mean of a column or of a group: NaN is skipped, and is the result if nothing is left.\<close>

definition dropna :: "'a option list \<Rightarrow> 'a list" where
  "dropna vs = concat (map (\<lambda>v. case v of None \<Rightarrow> [] | Some x \<Rightarrow> [x]) vs)"




text \<open>
  \<open>Series.quantile\<close> with linear interpolation, on a non-empty list: the position
  \<open>(n - 1) * q\<close> in the sorted values, interpolated between its two neighbours.
\<close>

definition quantile :: "real list \<Rightarrow> real \<Rightarrow> real" where
  "quantile xs q =
     (let s = sort xs;
          h = real (length s - 1) * q;
          lo = nat \<lfloor>h\<rfloor>;
          hi = nat \<lceil>h\<rceil>
      in s ! lo + (h - real lo) * (s ! hi - s ! lo))"

text \<open>
  The label of one value for given bin edges: \<open>searchsorted\<close> from the left counts the
  edges below the value, the lowest edge belongs to the first bin, and a value outside
  the edges has no label (NaN).
\<close>

definition bin_label :: "real list \<Rightarrow> real \<Rightarrow> response_category option" where
  "bin_label bins x =
     (let ids = (if x = bins ! 0 then 1 else length (filter (\<lambda>b. b < x) bins))
      in if ids = 0 \<or> ids = length bins then None
         else Some ([Quick, Moderate, Slow] ! (ids - 1)))"

text \<open>
  \<open>pd.qcut\<close> with \<open>q=3\<close> and the three labels: the edges are the quantiles at 0, 1/3,
  2/3 and 1 of the values present; edges that are not pairwise distinct raise
  \<open>ValueError\<close> (so does a column without any value).
\<close>

definition tercile_edges :: "real list \<Rightarrow> real list" where
  "tercile_edges xs = map (quantile xs) [0, 1 / 3, 2 / 3, 1]"

definition qcut3 :: "real option list \<Rightarrow> py_error + response_category option list" where
  "qcut3 vs =
     (if dropna vs = [] then Inl ValueError
      else let bins = tercile_edges (dropna vs)
           in if \<not> distinct bins then Inl ValueError
              else Inr (map (\<lambda>v. case v of None \<Rightarrow> None | Some x \<Rightarrow> bin_label bins x) vs))"











section \<open>recommendation\_system.py: nearest neighbours\<close>

text \<open>
  A feature vector is a list of reals. The cosine distance is the one scikit-learn
  computes for \<open>metric='cosine'\<close>: both rows are scaled to unit length (a zero row is
  left as it is), the distance is one minus their inner product, clipped to [0, 2].
\<close>

type_synonym vec = "real list"

definition dot :: "vec \<Rightarrow> vec \<Rightarrow> real" where
  "dot a b = sum_list (map2 (*) a b)"

definition row_norm :: "vec \<Rightarrow> real" where
  "row_norm a = sqrt (dot a a)"

definition normalize :: "vec \<Rightarrow> vec" where
  "normalize a = (let n = row_norm a in map (\<lambda>x. x / (if n = 0 then 1 else n)) a)"

definition cosine_distance :: "vec \<Rightarrow> vec \<Rightarrow> real" where
  "cosine_distance a b = min 2 (max 0 (1 - dot (normalize a) (normalize b)))"

text \<open>
  \<open>NearestNeighbors.kneighbors\<close> for one query row, on the model fitted by \<open>fit\<close>
  (\<open>None\<close> before fitting). It refuses a neighbour count that is not positive or
  exceeds the number of fitted rows, and a query of the wrong width. The result is the
  row numbers of the nearest fitted rows by increasing distance, with their distances;
  rows at equal distance are taken in row order here.
\<close>

definition kneighbors :: "vec list option \<Rightarrow> vec \<Rightarrow> int \<Rightarrow> py_error + (real list \<times> nat list)" where
  "kneighbors fit_X x n_neighbors =
     (case fit_X of
        None \<Rightarrow> Inl NotFittedError
      | Some X \<Rightarrow>
          if n_neighbors \<le> 0 then Inl ValueError
          else if list_ex (\<lambda>row. length row \<noteq> length x) X then Inl ValueError
          else if int (length X) < n_neighbors then Inl ValueError
          else
            let dist = map (cosine_distance x) X;
                neigh_ind = take (nat n_neighbors) (sort_key (\<lambda>i. dist ! i) [0..<length X])
            in Inr (map (\<lambda>i. dist ! i) neigh_ind, neigh_ind))"

text \<open>
  \<open>get_recommendations\<close>: one neighbour more than asked for is requested, and the first
  entry of both arrays is cut off (\<open>[1:]\<close>).
\<close>

definition get_recommendations :: "vec list option \<Rightarrow> vec \<Rightarrow> int \<Rightarrow> py_error + (nat list \<times> real list)" where
  "get_recommendations knn_model user_features n_recommendations =
     (case kneighbors knn_model user_features (n_recommendations + 1) of
        Inl e \<Rightarrow> Inl e
      | Inr (distances, indices) \<Rightarrow> Inr (drop 1 indices, drop 1 distances))"

text \<open>
  The same two functions with the distance as a parameter. scikit-learn evaluates the
  cosine distance in double precision, where rows of different direction can come out at
  the same distance from the query; what is stated for every distance function holds for
  the distances as the index computes them. With \<open>cosine_distance\<close> for the parameter
  these are \<open>kneighbors\<close> and \<open>get_recommendations\<close>.
\<close>

definition kneighbors_metric :: "(vec \<Rightarrow> vec \<Rightarrow> real) \<Rightarrow> vec list option \<Rightarrow> vec \<Rightarrow> int
    \<Rightarrow> py_error + (real list \<times> nat list)" where
  "kneighbors_metric d fit_X x n_neighbors =
     (case fit_X of
        None \<Rightarrow> Inl NotFittedError
      | Some X \<Rightarrow>
          if n_neighbors \<le> 0 then Inl ValueError
          else if list_ex (\<lambda>row. length row \<noteq> length x) X then Inl ValueError
          else if int (length X) < n_neighbors then Inl ValueError
          else
            let dist = map (d x) X;
                neigh_ind = take (nat n_neighbors) (sort_key (\<lambda>i. dist ! i) [0..<length X])
            in Inr (map (\<lambda>i. dist ! i) neigh_ind, neigh_ind))"

definition get_recommendations_metric :: "(vec \<Rightarrow> vec \<Rightarrow> real) \<Rightarrow> vec list option \<Rightarrow> vec \<Rightarrow> int
    \<Rightarrow> py_error + (nat list \<times> real list)" where
  "get_recommendations_metric d knn_model user_features n_recommendations =
     (case kneighbors_metric d knn_model user_features (n_recommendations + 1) of
        Inl e \<Rightarrow> Inl e
      | Inr (distances, indices) \<Rightarrow> Inr (drop 1 indices, drop 1 distances))"

text \<open>
  Fitted sets for the examples: two equal rows; a single row; two equal rows and a third;
  three rows in different directions.
\<close>

definition twin_rows :: "vec list" where
  "twin_rows = [[1, 0], [1, 0]]"

definition single_row :: "vec list" where
  "single_row = [[1, 0]]"

definition twin_rows_and_other :: "vec list" where
  "twin_rows_and_other = [[2, 0], [2, 0], [0, 1]]"

definition three_rows :: "vec list" where
  "three_rows = [[1, 0], [0, 1], [- 1, 0]]"

section \<open>Verified properties\<close>

lemmas score_defs = calculate_match_score_def score_body_def
     get_communication_style_def style_component_def time_score_def engagement_component_def
     activity_component_def expected_freq_def engagement_rank_def apply_penalties_def

lemma calculate_match_score_bounds:
  "0 \<le> calculate_match_score prefs u \<and> calculate_match_score prefs u \<le> 100"
  by (auto simp: calculate_match_score_def score_body_def Let_def split: sum.splits)

lemma set_slice_to: "set (slice_to n xs) \<subseteq> set xs"
  by (simp add: slice_to_def set_take_subset)

lemma score_all_total:
  "set users \<subseteq> fst ` set bd \<Longrightarrow>
   \<exists>ms. score_all prefs bd users = Inr ms \<and> length ms = length users \<and>
     (\<forall>m\<in>set ms. \<exists>u. map_of bd (match_user m) = Some u \<and>
         match_score m = calculate_match_score prefs u)"
proof (induction users)
  case Nil
  then show ?case by simp
next
  case (Cons user users)
  from Cons.prems have "user \<in> fst ` set bd" by simp
  then obtain u where u: "map_of bd user = Some u"
    by (metis map_of_eq_None_iff not_Some_eq)
  from Cons obtain ms where ms: "score_all prefs bd users = Inr ms" "length ms = length users"
    "\<forall>m\<in>set ms. \<exists>u. map_of bd (match_user m) = Some u \<and>
         match_score m = calculate_match_score prefs u"
    by auto
  show ?case using u ms by simp
qed

text \<open>
  Claim C1 (the worked example scores 100). On the example profile and preferences
  \<open>calculate_match_score\<close> returns 65, not 100: the style label computed for the
  profile is \<open>Positive\<close> (capitalised), the preferred style is \<open>positive\<close>, the two
  strings differ, and no branch of the communication component fires. The remaining
  components give 25 + 25 + 15.
\<close>

theorem C1_example_score_is_65:
  "calculate_match_score example_preferences example_profile = 65"
  by (simp add: score_defs example_profile_def example_preferences_def)

text \<open>
  Claim C2 as stated (the two label functions are extensionally equal) fails at the
  polarity 0.3: one function answers \<open>positive\<close>, the other \<open>Positive\<close>.
\<close>

theorem C2_labels_differ_at_positive:
  "extract_communication_features 0.3
     \<noteq> get_communication_style (example_profile\<lparr>sentiment_mean := 0.3\<rparr>)"
  by (simp add: extract_communication_features_def get_communication_style_def)

text \<open>
  Claim C2, amended: for every polarity \<open>x\<close> the two functions classify by the same
  thresholds (above 0.2, below -0.2, otherwise) and their labels agree up to letter case:
  the label of \<open>_extract_communication_features\<close> is the lower-cased label of
  \<open>_get_communication_style\<close>.
\<close>

theorem C2_labels_agree_up_to_case:
  "extract_communication_features x = lower (get_communication_style (p\<lparr>sentiment_mean := x\<rparr>))
   \<and> get_communication_style (p\<lparr>sentiment_mean := x\<rparr>) =
       (if x > 0.2 then ''Positive'' else if x < - 0.2 then ''Critical'' else ''Neutral'')
   \<and> extract_communication_features x =
       (if x > 0.2 then ''positive'' else if x < - 0.2 then ''critical'' else ''neutral'')"
  by (simp add: extract_communication_features_def get_communication_style_def lower_def
      lower_char_def)

text \<open>
  The amended claim C2 at the polarity 0.3.
\<close>

theorem C2_labels_agree_up_to_case_witness:
  "extract_communication_features 0.3 = ''positive'' \<and>
   get_communication_style (example_profile\<lparr>sentiment_mean := 0.3\<rparr>) = ''Positive'' \<and>
   lower ''Positive'' = ''positive''"
  using C2_labels_agree_up_to_case [of "0.3" example_profile]
  by (simp add: lower_def lower_char_def)

text \<open>
  Claim C3 as stated fails: for an author missing from the table the view's response time
  is not \<open>0.0 hours\<close> and its weekend activity is not \<open>0.0%\<close>.
\<close>

theorem C3_unknown_author_default_not_one_decimal:
  "view_response_time (get_user_profile ''ghost'' [(''alice'', example_profile)]) \<noteq> ''0.0 hours''
   \<and> view_weekend_activity (get_user_profile ''ghost'' [(''alice'', example_profile)]) \<noteq> ''0.0%''"
  by (simp add: get_user_profile_def)

text \<open>
  Claim C3, amended: for every author not present in the profile table
  \<open>get_user_profile\<close> returns, without failing, the default view with engagement level
  \<open>medium\<close>, communication style \<open>neutral\<close>, message frequency 0, active hours 0,
  response time \<open>0 hours\<close> and weekend activity \<open>0%\<close> (literal strings, no decimal).
\<close>

theorem C3_unknown_author_default:
  "map_of behavior_data user = None \<Longrightarrow>
   get_user_profile user behavior_data =
     \<lparr> view_response_time = ''0 hours'', view_message_frequency = 0,
       view_engagement_level = ''medium'', view_communication_style = ''neutral'',
       view_active_hours = 0, view_weekend_activity = ''0%'' \<rparr>"
  by (simp add: get_user_profile_def)

text \<open>
  The amended claim C3 on a table that holds one other author.
\<close>

theorem C3_unknown_author_default_witness:
  "map_of [(''alice'', example_profile)] ''ghost'' = None \<and>
   get_user_profile ''ghost'' [(''alice'', example_profile)] =
     \<lparr> view_response_time = ''0 hours'', view_message_frequency = 0,
       view_engagement_level = ''medium'', view_communication_style = ''neutral'',
       view_active_hours = 0, view_weekend_activity = ''0%'' \<rparr>"
proof -
  have h: "map_of [(''alice'', example_profile)] ''ghost'' = None" by simp
  show ?thesis using h C3_unknown_author_default [OF h] by simp
qed

text \<open>
  Claim C9: for every profile and every preferences value the match score lies in
  [0, 100]; when the body of the scorer raises, the score is 0; and \<open>find_matches\<close>
  never aborts: it returns a list of results (for \<open>n \<ge> 0\<close>, the
  \<open>min n (number of candidates)\<close> best ones), each carrying the score of its own
  candidate, within [0, 100].
\<close>

theorem C9_score_bounded_and_errors_isolated:
  "0 \<le> calculate_match_score prefs user_data \<and>
   calculate_match_score prefs user_data \<le> 100 \<and>
   (\<forall>e. score_body prefs user_data = Inl e \<longrightarrow> calculate_match_score prefs user_data = 0) \<and>
   (\<exists>ms. find_matches prefs behavior_data n = Inr ms \<and>
         (0 \<le> n \<longrightarrow> length ms = min (nat n) (length behavior_data)) \<and>
         (\<forall>m\<in>set ms. \<exists>u. map_of behavior_data (match_user m) = Some u \<and>
             match_score m = calculate_match_score prefs u \<and>
             0 \<le> match_score m \<and> match_score m \<le> 100))"
proof -
  have "set (map fst behavior_data) \<subseteq> fst ` set behavior_data" by simp
  from score_all_total [OF this, of prefs]
  obtain ms where ms: "score_all prefs behavior_data (map fst behavior_data) = Inr ms"
    "length ms = length behavior_data"
    "\<forall>m\<in>set ms. \<exists>u. map_of behavior_data (match_user m) = Some u \<and>
         match_score m = calculate_match_score prefs u"
    by auto
  let ?res = "slice_to n (sort_key (\<lambda>m. - match_score m) ms)"
  have fm: "find_matches prefs behavior_data n = Inr ?res"
    by (simp add: find_matches_def ms(1))
  have len: "0 \<le> n \<longrightarrow> length ?res = min (nat n) (length behavior_data)"
    by (simp add: ms(2) min.commute slice_to_def)
  have "set ?res \<subseteq> set ms"
    using set_slice_to [of n "sort_key (\<lambda>m. - match_score m) ms"] by simp
  with ms(3) have each: "\<forall>m\<in>set ?res. \<exists>u. map_of behavior_data (match_user m) = Some u \<and>
             match_score m = calculate_match_score prefs u \<and>
             0 \<le> match_score m \<and> match_score m \<le> 100"
    using calculate_match_score_bounds by (metis subsetD)
  have err: "\<forall>e. score_body prefs user_data = Inl e \<longrightarrow> calculate_match_score prefs user_data = 0"
    by (simp add: calculate_match_score_def)
  show ?thesis
    using calculate_match_score_bounds [of prefs user_data] err fm len each by blast
qed

text \<open>
  Claim C9 on a batch of two candidates, the first of which makes the scorer raise
  \<open>KeyError\<close>: it is scored 0 and ranked after the other one, which keeps its score.
\<close>

theorem C9_score_bounded_and_errors_isolated_witness:
  "score_body example_preferences bad_profile = Inl KeyError \<and>
   calculate_match_score example_preferences bad_profile = 0 \<and>
   (\<exists>ms. find_matches example_preferences
            [(''bad'', bad_profile), (''good'', example_profile)] 5 = Inr ms \<and>
         length ms = 2 \<and> map match_user ms = [''good'', ''bad''] \<and>
         map match_score ms = [65, 0])"
proof -
  have b: "score_body example_preferences bad_profile = Inl KeyError"
    by (simp add: score_defs bad_profile_def example_profile_def example_preferences_def)
  have g: "calculate_match_score example_preferences example_profile = 65"
    by (simp add: score_defs example_profile_def example_preferences_def)
  have z: "calculate_match_score example_preferences bad_profile = 0"
    using C9_score_bounded_and_errors_isolated [of example_preferences bad_profile] b by blast
  show ?thesis using b z g
    by (simp add: find_matches_def slice_to_def)
qed
lemma length_spec_hour_deltas: "length (spec_hour_deltas ts) = length ts - 1"
  by (induction ts rule: spec_hour_deltas.induct) auto

lemma nth_spec_hour_deltas:
  "Suc i < length ts \<Longrightarrow>
   spec_hour_deltas ts ! i = real_of_int (ts ! Suc i - ts ! i) / 1000000000 / 3600"
proof (induction ts arbitrary: i rule: spec_hour_deltas.induct)
  case (1 t1 t2 ts)
  then show ?case by (cases i) auto
qed auto

lemma response_times_eq_spec:
  "calculate_response_times comments = spec_hour_deltas (sort (map created_utc comments))"
proof -
  let ?ts = "sort (map created_utc comments)"
  have "map (\<lambda>i. total_seconds (?ts ! i - ?ts ! (i - 1)) / 3600) [1..<length ?ts]
        = spec_hour_deltas ?ts"
    by (rule nth_equalityI)
       (auto simp: length_spec_hour_deltas nth_spec_hour_deltas total_seconds_def)
  then show ?thesis by (simp add: calculate_response_times_def Let_def)
qed

text \<open>
  Claim C8: on an empty comment list the five outputs are 0; on a non-empty list the
  average response time is the mean of the hour differences between consecutive
  timestamps in ascending order, and 0 when there are fewer than two comments; comments
  at 0 h, 2 h and 5 h give the differences [2, 3] and the average 2.5.
\<close>

theorem C8_comment_features:
  "extract_comment_features [] =
     \<lparr> avg_comment_length = 0, total_comments = 0, avg_words_per_comment = 0,
       comment_sentiment_mean = 0, post_avg_response_time = 0 \<rparr> \<and>
   (comments \<noteq> [] \<longrightarrow>
      post_avg_response_time (extract_comment_features comments) =
        (if length comments < 2 then 0
         else mean (spec_hour_deltas (sort (map created_utc comments))))) \<and>
   spec_hour_deltas (sort (map created_utc example_comments)) = [2, 3] \<and>
   post_avg_response_time (extract_comment_features example_comments) = 2.5"
proof -
  have a: "extract_comment_features [] =
     \<lparr> avg_comment_length = 0, total_comments = 0, avg_words_per_comment = 0,
       comment_sentiment_mean = 0, post_avg_response_time = 0 \<rparr>"
    by (simp add: extract_comment_features_def get_default_comment_features_def)
  have b: "comments \<noteq> [] \<longrightarrow>
      post_avg_response_time (extract_comment_features comments) =
        (if length comments < 2 then 0
         else mean (spec_hour_deltas (sort (map created_utc comments))))"
  proof
    assume ne: "comments \<noteq> []"
    let ?ts = "sort (map created_utc comments)"
    have len: "length (spec_hour_deltas ?ts) = length comments - 1"
      by (simp add: length_spec_hour_deltas)
    have "spec_hour_deltas ?ts \<noteq> [] \<longleftrightarrow> \<not> length comments < 2"
      using len by (metis One_nat_def Suc_1 length_0_conv less_diff_conv not_less_eq plus_1_eq_Suc zero_less_diff length_greater_0_conv)
    then show "post_avg_response_time (extract_comment_features comments) =
        (if length comments < 2 then 0 else mean (spec_hour_deltas ?ts))"
      using ne by (simp add: extract_comment_features_def Let_def response_times_eq_spec)
  qed
  have c: "spec_hour_deltas (sort (map created_utc example_comments)) = [2, 3]"
    by (simp add: example_comments_def comment_at_def)
  have d: "post_avg_response_time (extract_comment_features example_comments) = 2.5"
    by (simp add: extract_comment_features_def Let_def response_times_eq_spec c mean_def)
       (simp add: example_comments_def)
  show ?thesis using a b c d by blast
qed

text \<open>
  Claim C8 on the three example comments: the list is not empty, has at least two
  comments, and the average response time is the mean of [2, 3].
\<close>

theorem C8_comment_features_witness:
  "example_comments \<noteq> [] \<and> \<not> length example_comments < 2 \<and>
   post_avg_response_time (extract_comment_features example_comments) = mean [2, 3] \<and>
   mean [2, 3] = 2.5"
proof -
  have ne: "example_comments \<noteq> []" by (simp add: example_comments_def)
  have l: "\<not> length example_comments < 2" by (simp add: example_comments_def)
  have "post_avg_response_time (extract_comment_features example_comments) =
      mean (spec_hour_deltas (sort (map created_utc example_comments)))"
    using C8_comment_features [of example_comments] ne l by simp
  moreover have "spec_hour_deltas (sort (map created_utc example_comments)) = [2, 3]"
    by (simp add: example_comments_def comment_at_def)
  ultimately show ?thesis using ne l by (simp add: mean_def)
qed

lemmas double_defs = round_double_def ulp_def binade_def log2_up.simps log2_down.simps
  round_half_even_def Let_def

lemmas engagement_defs = calculate_engagement_level_def engagement_scores_def cut_def
  fillna_def

lemma double_three_tenths: "round_double 0.3 = 5404319552844595 / 18014398509481984"
  by (simp add: double_defs)

lemma double_seven_tenths: "round_double 0.7 = 3152519739159347 / 4503599627370496"
  by (simp add: double_defs)

lemma score_1_0_1:
  "engagement_scores (Some 1) (Some 0) (Some 1) = Finite (6305039478318695 / 9007199254740992)"
  by (simp only: engagement_scores_def fillna_def Let_def option.case)
     (simp add: double_defs)

lemma score_8_quarter_0:
  "engagement_scores (Some 8) (Some (1 / 4)) (Some 0)
     = Finite (6305039478318695 / 9007199254740992)"
  by (simp only: engagement_scores_def fillna_def Let_def option.case)
     (simp add: double_defs)

lemma score_0_missing_0:
  "engagement_scores (Some 0) None (Some 0) = Finite (6485183463413515 / 36028797018963968)"
  by (simp only: engagement_scores_def fillna_def Let_def option.case)
     (simp add: double_defs)

lemma features_eight_comments:
  "extract_comment_features eight_comments =
     \<lparr> avg_comment_length = 2, total_comments = 8, avg_words_per_comment = 1,
       comment_sentiment_mean = 0, post_avg_response_time = 1 / 4 \<rparr>"
  by (simp add: extract_comment_features_def calculate_response_times_def eight_comments_def
      comment_at_def mean_def total_seconds_def Let_def upt_rec)

text \<open>
  Claim C5 as stated fails twice. A row whose response time is missing is scored with 24
  in its place, not 0: with no comments and neutral sentiment it is low, where the
  formula with 0 gives 1/2, medium. And the score is computed in doubles: for one
  comment, response time 0 and sentiment 1 (and for eight neutral comments a quarter of
  an hour apart) the formula gives exactly 0.7, medium, while the computed score is the
  double just above the double 0.7, so the row is high.
\<close>

theorem C5_missing_time_and_rounding:
  "calculate_engagement_level (Some 0) None (Some 0) = Low \<and>
   spec_engagement_score (Some 0) None (Some 0) = 1 / 2 \<and>
   spec_engagement_bin (spec_engagement_score (Some 0) None (Some 0)) = Medium \<and>
   engagement_scores (Some 1) (Some 0) (Some 1)
     = Finite (6305039478318695 / 9007199254740992) \<and>
   round_double 0.7 < 6305039478318695 / 9007199254740992 \<and>
   calculate_engagement_level (Some 1) (Some 0) (Some 1) = High \<and>
   spec_engagement_score (Some 1) (Some 0) (Some 1) = 0.7 \<and>
   spec_engagement_bin (spec_engagement_score (Some 1) (Some 0) (Some 1)) = Medium \<and>
   post_engagement_level eight_comments = High"
  by (simp add: calculate_engagement_level_def cut_def score_1_0_1 score_0_missing_0
      score_8_quarter_0 double_three_tenths double_seven_tenths spec_engagement_score_def
      spec_engagement_bin_def fillna_def post_engagement_level_def features_eight_comments)

text \<open>
  The error of the computed score. Rounding to the nearest double moves a number by at
  most half the spacing of the doubles around it, which is \<open>1 / 2 ^ 47\<close> for numbers
  below 128 in magnitude; the roundings of the inputs and of the eight operations add up to at most
  \<open>1 / 2 ^ 45\<close>.
\<close>

lemma round_half_even_error: "\<bar>real_of_int (round_half_even z) - z\<bar> \<le> 1 / 2"
proof -
  have f: "real_of_int \<lfloor>z\<rfloor> \<le> z" "z < real_of_int \<lfloor>z\<rfloor> + 1" by linarith+
  show ?thesis
    using f by (auto simp: round_half_even_def Let_def)
qed

lemma log2_up_bounds:
  "1 \<le> x \<Longrightarrow> 0 \<le> log2_up x \<and> 2 powi (log2_up x) \<le> x \<and> x < 2 * 2 powi (log2_up x)"
proof (induction x rule: log2_up.induct)
  case (1 x)
  show ?case
  proof (cases "2 \<le> x")
    case True
    then have "1 \<le> x / 2" by simp
    from "1.IH" [OF True this] have k: "0 \<le> log2_up (x / 2)"
      "2 powi (log2_up (x / 2)) \<le> x / 2" "x / 2 < 2 * 2 powi (log2_up (x / 2))" by auto
    have e: "log2_up x = log2_up (x / 2) + 1" using True by (subst log2_up.simps) simp
    have p: "(2::real) powi (log2_up (x / 2) + 1) = 2 * 2 powi (log2_up (x / 2))"
      by (simp add: power_int_add)
    show ?thesis using k unfolding e p by auto
  next
    case False
    then have e: "log2_up x = 0" by (subst log2_up.simps) simp
    show ?thesis using False "1.prems" by (simp add: e)
  qed
qed

lemma log2_down_bounds:
  "0 < x \<Longrightarrow> x < 1 \<Longrightarrow>
   log2_down x < 0 \<and> 2 powi (log2_down x) \<le> x \<and> x < 2 * 2 powi (log2_down x)"
proof (induction x rule: log2_down.induct)
  case (1 x)
  have c: "0 < x \<and> x < 1" using "1.prems" by simp
  have e: "log2_down x = log2_down (x * 2) - 1" using c by (subst log2_down.simps) simp
  have p: "(2::real) powi (log2_down (x * 2) - 1) = 2 powi (log2_down (x * 2)) / 2"
    by (simp add: power_int_diff)
  show ?case
  proof (cases "x * 2 < 1")
    case True
    have "0 < x * 2" using c by simp
    from "1.IH" [OF c this True] have k: "log2_down (x * 2) < 0"
      "2 powi (log2_down (x * 2)) \<le> x * 2" "x * 2 < 2 * 2 powi (log2_down (x * 2))" by auto
    show ?thesis using k unfolding e p by auto
  next
    case False
    then have z: "log2_down (x * 2) = 0" by (subst log2_down.simps) simp
    show ?thesis using False c unfolding e p z by simp
  qed
qed

lemma binade_bounds:
  assumes "0 < x"
  shows "2 powi (binade x) \<le> x" "x < 2 * 2 powi (binade x)"
  using assms log2_up_bounds [of x] log2_down_bounds [of x]
  by (auto simp: binade_def not_le)

lemma pow2_less_exp:
  assumes "(2::real) powi a < 2 powi b"
  shows "a < b"
proof (rule ccontr)
  assume "\<not> a < b"
  then have "b \<le> a" by simp
  then have "(2::real) powi b \<le> 2 powi a" by (rule power_int_increasing) simp
  with assms show False by simp
qed

lemma ulp_pos: "0 < ulp x"
  by (simp add: ulp_def)

lemma round_double_error: "\<bar>round_double x - x\<bar> \<le> ulp x / 2"
proof -
  have u: "0 < ulp x" by (rule ulp_pos)
  have "round_double x - x = (real_of_int (round_half_even (x / ulp x)) - x / ulp x) * ulp x"
    using u by (simp add: round_double_def algebra_simps)
  then have "\<bar>round_double x - x\<bar> =
      \<bar>real_of_int (round_half_even (x / ulp x)) - x / ulp x\<bar> * ulp x"
    using u by (simp add: abs_mult)
  also have "\<dots> \<le> (1 / 2) * ulp x"
    using round_half_even_error [of "x / ulp x"] u by (intro mult_right_mono) auto
  finally show ?thesis by simp
qed

lemma round_double_zero: "round_double 0 = 0"
  by (simp add: round_double_def round_half_even_def)

lemma round_double_abs_error:
  assumes "\<bar>x\<bar> < 2 powi k" "- 1021 \<le> k"
  shows "\<bar>round_double x - x\<bar> \<le> 2 powi (k - 53) / 2"
proof (cases "x = 0")
  case True
  then show ?thesis by (simp add: round_double_zero)
next
  case False
  then have p: "0 < \<bar>x\<bar>" by simp
  have "2 powi (binade \<bar>x\<bar>) < (2::real) powi k"
    using binade_bounds(1) [OF p] assms(1) by linarith
  then have "binade \<bar>x\<bar> < k" by (rule pow2_less_exp)
  then have "max (binade \<bar>x\<bar>) (- 1022) - 52 \<le> k - 53" using assms(2) by simp
  then have "ulp x \<le> 2 powi (k - 53)"
    unfolding ulp_def by (intro power_int_increasing) auto
  with round_double_error [of x] show ?thesis by linarith
qed

lemma round_double_rel_error:
  assumes "1 / 2 \<le> x"
  shows "\<bar>round_double x - x\<bar> \<le> x / 2 ^ 53"
proof -
  have p: "0 < x" using assms by simp
  have "(2::real) powi (- 2) < 2 powi (binade x)"
    using binade_bounds(2) [OF p] assms by simp
  then have "- 2 < binade x" by (rule pow2_less_exp)
  then have "max (binade x) (- 1022) = binade x" by simp
  then have "ulp x = 2 powi (binade x - 52)" using p by (simp add: ulp_def)
  also have "\<dots> = 2 powi (binade x) / 2 ^ 52" by (simp add: power_int_diff)
  also have "\<dots> \<le> x / 2 ^ 52" using binade_bounds(1) [OF p] by (simp add: divide_right_mono)
  finally have "ulp x \<le> x / 2 ^ 52" .
  with round_double_error [of x] show ?thesis by simp
qed


lemma round_double_small:
  assumes "\<bar>x\<bar> < 128"
  shows "\<bar>round_double x - x\<bar> \<le> 1 / 2 ^ 47"
proof -
  have "\<bar>x\<bar> < 2 powi 7" using assms by simp
  from round_double_abs_error [OF this] show ?thesis by simp
qed

lemma round_double_nonneg_input:
  assumes "0 \<le> x"
  shows "\<bar>round_double x - x\<bar> \<le> (1 + x) / 2 ^ 53"
proof (cases "1 / 2 \<le> x")
  case True
  from round_double_rel_error [OF True] have "\<bar>round_double x - x\<bar> \<le> x / 2 ^ 53" .
  moreover have "x / 2 ^ 53 \<le> (1 + x) / 2 ^ 53" by (simp add: divide_right_mono)
  ultimately show ?thesis by linarith
next
  case False
  then have "\<bar>x\<bar> < 2 powi 0" using assms by simp
  from round_double_abs_error [OF this] have "\<bar>round_double x - x\<bar> \<le> 1 / 2 ^ 54"
    by simp
  moreover have "(1::real) / 2 ^ 54 \<le> (1 + x) / 2 ^ 53" using assms by (simp add: field_simps)
  ultimately show ?thesis by linarith
qed

lemma reciprocal_term:
  assumes art: "0 \<le> art"
  defines "d \<equiv> round_double (1 + round_double art)"
  shows "1 / 2 \<le> d" and "\<bar>round_double (1 / d) - 1 / (1 + art)\<bar> \<le> 1 / 2 ^ 50"
proof -
  define D where "D = 1 + art"
  define r where "r = round_double art"
  have p53: "(2::real) ^ 53 = 9007199254740992" by simp
  have D1: "1 \<le> D" using art by (simp add: D_def)
  have r: "\<bar>r - art\<bar> \<le> D / 9007199254740992"
    using round_double_nonneg_input [OF art] unfolding p53 by (simp only: r_def D_def)
  have y_lo: "1 / 2 \<le> 1 + r" using r D1 unfolding D_def by argo
  have y_hi: "1 + r \<le> 2 * D" using r D1 unfolding D_def by argo
  have "\<bar>d - (1 + r)\<bar> \<le> (1 + r) / 9007199254740992"
    using round_double_rel_error [OF y_lo] unfolding p53 by (simp only: d_def r_def)
  then have dy: "\<bar>d - (1 + r)\<bar> \<le> 2 * D / 9007199254740992" using y_hi by argo
  have dD: "\<bar>d - D\<bar> \<le> 3 * D / 9007199254740992" using dy r unfolding D_def by argo
  have half: "D / 2 \<le> d" using dD D1 by argo
  show d_lo: "1 / 2 \<le> d" using half D1 by argo
  have dpos: "0 < d" "0 < D" using d_lo D1 by argo+
  have eq: "1 / d - 1 / D = (D - d) / (d * D)" using dpos by (simp add: field_simps)
  have m: "0 < d * D" using dpos by simp
  have "\<bar>1 / d - 1 / D\<bar> = \<bar>D - d\<bar> / (d * D)"
    unfolding eq abs_divide using m by simp
  also have "\<dots> \<le> (3 * D / 9007199254740992) / (d * D)"
  proof (rule divide_right_mono)
    show "\<bar>D - d\<bar> \<le> 3 * D / 9007199254740992" using dD by argo
    show "0 \<le> d * D" using m by simp
  qed
  also have "\<dots> = (3 / 9007199254740992) / d" using dpos by simp
  also have "\<dots> \<le> (3 / 9007199254740992) / (1 / 2)"
    using d_lo by (intro divide_left_mono) simp_all
  finally have inv: "\<bar>1 / d - 1 / D\<bar> \<le> 6 / 9007199254740992" by simp
  have "1 / d \<le> 1 / (1 / 2)" using d_lo by (intro divide_left_mono) simp_all
  then have "1 / d \<le> 2" by simp
  moreover have "0 < 1 / d" using dpos by simp
  ultimately have "\<bar>1 / d\<bar> < 2 powi 2" by simp
  from round_double_abs_error [OF this]
  have "\<bar>round_double (1 / d) - 1 / d\<bar> \<le> 1 / 4503599627370496" by simp
  with inv have "\<bar>round_double (1 / d) - 1 / D\<bar> \<le> 1 / 1125899906842624" by argo
  then show "\<bar>round_double (1 / d) - 1 / (1 + art)\<bar> \<le> 1 / 2 ^ 50"
    unfolding D_def by simp
qed


lemma score_error:
  assumes tc: "0 \<le> tc" "tc \<le> 100" and art: "0 \<le> art" and csm: "- 1 \<le> csm" "csm \<le> 1"
  shows "\<exists>s. engagement_scores (Some tc) (Some art) (Some csm) = Finite s \<and>
             \<bar>s - (tc / 10 + 1 / (1 + art) + (csm + 1) / 2) / 3\<bar> \<le> 1 / 2 ^ 45"
proof -
  define t where "t = round_double tc"
  define a where "a = round_double (t / 10)"
  define d where "d = round_double (1 + round_double art)"
  define b where "b = round_double (1 / d)"
  define m where "m = round_double csm"
  define c1 where "c1 = round_double (m + 1)"
  define c where "c = round_double (c1 / 2)"
  define s1 where "s1 = round_double (a + b)"
  define s2 where "s2 = round_double (s1 + c)"
  define s where "s = round_double (s2 / 3)"
  define B where "B = 1 / (1 + art)"
  have p47: "(1::real) / 2 ^ 47 = 1 / 140737488355328" by simp
  have p50: "(1::real) / 2 ^ 50 = 1 / 1125899906842624" by simp
  have B: "0 < B" "B \<le> 1" using art by (simp_all add: B_def)
  have d_lo: "1 / 2 \<le> d" unfolding d_def using art by (rule reciprocal_term(1))
  have eb: "\<bar>b - B\<bar> \<le> 1 / 1125899906842624"
    using reciprocal_term(2) [OF art] unfolding p50 by (simp only: b_def d_def B_def)
  have "\<bar>tc\<bar> < 128" using tc by argo
  from round_double_small [OF this]
  have et: "\<bar>t - tc\<bar> \<le> 1 / 140737488355328" unfolding p47 by (simp only: t_def)
  have "\<bar>t / 10\<bar> < 128" using et tc by argo
  from round_double_small [OF this]
  have ea: "\<bar>a - t / 10\<bar> \<le> 1 / 140737488355328" unfolding p47 by (simp only: a_def)
  have "\<bar>csm\<bar> < 128" using csm by argo
  from round_double_small [OF this]
  have em: "\<bar>m - csm\<bar> \<le> 1 / 140737488355328" unfolding p47 by (simp only: m_def)
  have "\<bar>m + 1\<bar> < 128" using em csm by argo
  from round_double_small [OF this]
  have ec1: "\<bar>c1 - (m + 1)\<bar> \<le> 1 / 140737488355328" unfolding p47 by (simp only: c1_def)
  have "\<bar>c1 / 2\<bar> < 128" using ec1 em csm by argo
  from round_double_small [OF this]
  have ec: "\<bar>c - c1 / 2\<bar> \<le> 1 / 140737488355328" unfolding p47 by (simp only: c_def)
  have "\<bar>a + b\<bar> < 128" using ea et tc eb B by argo
  from round_double_small [OF this]
  have es1: "\<bar>s1 - (a + b)\<bar> \<le> 1 / 140737488355328" unfolding p47 by (simp only: s1_def)
  have "\<bar>s1 + c\<bar> < 128" using es1 ea et tc eb B ec ec1 em csm by argo
  from round_double_small [OF this]
  have es2: "\<bar>s2 - (s1 + c)\<bar> \<le> 1 / 140737488355328" unfolding p47 by (simp only: s2_def)
  have "\<bar>s2 / 3\<bar> < 128" using es2 es1 ea et tc eb B ec ec1 em csm by argo
  from round_double_small [OF this]
  have es: "\<bar>s - s2 / 3\<bar> \<le> 1 / 140737488355328" unfolding p47 by (simp only: s_def)
  have total: "\<bar>s - (tc / 10 + B + (csm + 1) / 2) / 3\<bar> \<le> 1 / 35184372088832"
    using es es2 es1 ea et eb ec ec1 em by argo
  have dn: "d \<noteq> 0" using d_lo by argo
  have "engagement_scores (Some tc) (Some art) (Some csm) = Finite s"
    using dn
    by (simp only: engagement_scores_def fillna_def option.case Let_def
          s_def s2_def s1_def c_def c1_def m_def b_def d_def a_def t_def if_False)
  moreover have "\<bar>s - (tc / 10 + 1 / (1 + art) + (csm + 1) / 2) / 3\<bar> \<le> 1 / 2 ^ 45"
    using total unfolding B_def by simp
  ultimately show ?thesis by blast
qed


lemma level_fillna:
  "calculate_engagement_level tc art csm =
     calculate_engagement_level (Some (fillna 0 tc)) (Some (fillna 24 art)) (Some (fillna 0 csm))"
  by (simp add: calculate_engagement_level_def engagement_scores_def fillna_def)

lemma three_tenths_gap: "0.3 - 1 / 2 ^ 45 \<le> round_double 0.3" "round_double 0.3 \<le> 0.3"
  by (simp_all add: double_three_tenths)

lemma seven_tenths_gap: "0.7 - 1 / 2 ^ 45 \<le> round_double 0.7" "round_double 0.7 \<le> 0.7"
  by (simp_all add: double_seven_tenths)

lemma bins_agree:
  assumes s: "\<bar>s - e\<bar> \<le> 1 / 2 ^ 45"
    and lo: "1 / 2 ^ 44 < \<bar>e - 0.3\<bar>" and hi: "1 / 2 ^ 44 < \<bar>e - 0.7\<bar>"
  shows "cut (Finite s) = spec_engagement_bin e"
proof -
  have p45: "(1::real) / 2 ^ 45 = 1 / 35184372088832" by simp
  have p44: "(1::real) / 2 ^ 44 = 1 / 17592186044416" by simp
  note g = three_tenths_gap [unfolded p45] seven_tenths_gap [unfolded p45]
  have a: "s \<le> round_double 0.3 \<longleftrightarrow> e \<le> 0.3"
    using s lo g unfolding p45 p44 by argo
  have b: "s \<le> round_double 0.7 \<longleftrightarrow> e \<le> 0.7"
    using s hi g unfolding p45 p44 by argo
  show ?thesis by (simp only: cut_def spec_engagement_bin_def score.case a b)
qed

text \<open>
  Claim C5, amended: a missing \<open>total_comments\<close> or \<open>comment_sentiment_mean\<close> is scored
  as 0 and a missing \<open>avg_response_time\<close> as 24. The score is the formula evaluated in
  double precision, and the bin is low up to the double nearest 0.3, medium up to the
  double nearest 0.7 and high above it. For \<open>0 \<le> total_comments \<le> 100\<close>,
  \<open>avg_response_time \<ge> 0\<close> and \<open>-1 \<le> comment_sentiment_mean \<le> 1\<close> the computed score is
  a number within \<open>1 / 2 ^ 45\<close> of the exact value of the formula, so the bin is the one the
  formula's exact value has whenever that value is further than \<open>1 / 2 ^ 44\<close> from 0.3 and
  from 0.7.
\<close>

theorem C5_engagement_level_in_doubles:
  "calculate_engagement_level tc art csm =
     calculate_engagement_level (Some (fillna 0 tc)) (Some (fillna 24 art)) (Some (fillna 0 csm)) \<and>
   (0 \<le> c \<and> c \<le> 100 \<and> 0 \<le> r \<and> - 1 \<le> m \<and> m \<le> 1 \<longrightarrow>
      (\<exists>s. engagement_scores (Some c) (Some r) (Some m) = Finite s \<and>
            \<bar>s - spec_engagement_score (Some c) (Some r) (Some m)\<bar> \<le> 1 / 2 ^ 45 \<and>
            calculate_engagement_level (Some c) (Some r) (Some m) =
              (if s \<le> round_double 0.3 then Low
               else if s \<le> round_double 0.7 then Medium else High)) \<and>
      (1 / 2 ^ 44 < \<bar>spec_engagement_score (Some c) (Some r) (Some m) - 0.3\<bar> \<and>
       1 / 2 ^ 44 < \<bar>spec_engagement_score (Some c) (Some r) (Some m) - 0.7\<bar> \<longrightarrow>
         calculate_engagement_level (Some c) (Some r) (Some m) =
           spec_engagement_bin (spec_engagement_score (Some c) (Some r) (Some m))))"
proof (intro conjI impI)
  show "calculate_engagement_level tc art csm =
     calculate_engagement_level (Some (fillna 0 tc)) (Some (fillna 24 art)) (Some (fillna 0 csm))"
    by (rule level_fillna)
next
  assume h: "0 \<le> c \<and> c \<le> 100 \<and> 0 \<le> r \<and> - 1 \<le> m \<and> m \<le> 1"
  have e: "spec_engagement_score (Some c) (Some r) (Some m)
      = (c / 10 + 1 / (1 + r) + (m + 1) / 2) / 3"
    by (simp add: spec_engagement_score_def fillna_def)
  from h score_error [of c r m] obtain s where
    s: "engagement_scores (Some c) (Some r) (Some m) = Finite s"
      "\<bar>s - (c / 10 + 1 / (1 + r) + (m + 1) / 2) / 3\<bar> \<le> 1 / 2 ^ 45"
    by blast
  have l: "calculate_engagement_level (Some c) (Some r) (Some m) =
      (if s \<le> round_double 0.3 then Low else if s \<le> round_double 0.7 then Medium else High)"
    by (simp only: calculate_engagement_level_def s(1) cut_def score.case)
  show "\<exists>s. engagement_scores (Some c) (Some r) (Some m) = Finite s \<and>
            \<bar>s - spec_engagement_score (Some c) (Some r) (Some m)\<bar> \<le> 1 / 2 ^ 45 \<and>
            calculate_engagement_level (Some c) (Some r) (Some m) =
              (if s \<le> round_double 0.3 then Low
               else if s \<le> round_double 0.7 then Medium else High)"
    using s l unfolding e by blast
  assume g: "1 / 2 ^ 44 < \<bar>spec_engagement_score (Some c) (Some r) (Some m) - 0.3\<bar> \<and>
       1 / 2 ^ 44 < \<bar>spec_engagement_score (Some c) (Some r) (Some m) - 0.7\<bar>"
  have "cut (Finite s) = spec_engagement_bin (spec_engagement_score (Some c) (Some r) (Some m))"
    using bins_agree [of s "spec_engagement_score (Some c) (Some r) (Some m)"] s(2) g
    unfolding e by blast
  then show "calculate_engagement_level (Some c) (Some r) (Some m) =
           spec_engagement_bin (spec_engagement_score (Some c) (Some r) (Some m))"
    by (simp only: calculate_engagement_level_def s(1))
qed

text \<open>
  The amended claim C5 on a row without response time, no comments and neutral sentiment
  (scored as with 24 hours: 0.18, low), and on a row with five comments an hour apart and
  neutral sentiment (0.5, medium).
\<close>

theorem C5_engagement_level_in_doubles_witness:
  "spec_engagement_score (Some 0) (Some 24) (Some 0) = 9 / 50 \<and>
   (1::real) / 2 ^ 44 < \<bar>9 / 50 - 0.3\<bar> \<and> (1::real) / 2 ^ 44 < \<bar>9 / 50 - 0.7\<bar> \<and>
   spec_engagement_bin (9 / 50) = Low \<and>
   calculate_engagement_level (Some 0) None (Some 0) = Low \<and>
   spec_engagement_score (Some 5) (Some 1) (Some 0) = 1 / 2 \<and>
   (1::real) / 2 ^ 44 < \<bar>1 / 2 - 0.3\<bar> \<and> (1::real) / 2 ^ 44 < \<bar>1 / 2 - 0.7\<bar> \<and>
   spec_engagement_bin (1 / 2) = Medium \<and>
   calculate_engagement_level (Some 5) (Some 1) (Some 0) = Medium"
proof -
  note T = C5_engagement_level_in_doubles
  have e1: "spec_engagement_score (Some 0) (Some 24) (Some 0) = 9 / 50"
    by (simp add: spec_engagement_score_def fillna_def)
  have b1: "spec_engagement_bin (9 / 50) = Low" by (simp add: spec_engagement_bin_def)
  have g1: "(1::real) / 2 ^ 44 < \<bar>9 / 50 - 0.3\<bar>" "(1::real) / 2 ^ 44 < \<bar>9 / 50 - 0.7\<bar>"
    by simp_all
  have h1: "(0::real) \<le> 0 \<and> (0::real) \<le> 100 \<and> (0::real) \<le> 24 \<and> - 1 \<le> (0::real) \<and> (0::real) \<le> 1"
    by simp
  have f: "calculate_engagement_level (Some 0) None (Some 0) =
     calculate_engagement_level (Some 0) (Some 24) (Some 0)"
    using T [of "Some 0" None "Some 0" 0 24 0] by (simp add: fillna_def)
  have "calculate_engagement_level (Some 0) (Some 24) (Some 0) =
      spec_engagement_bin (spec_engagement_score (Some 0) (Some 24) (Some 0))"
    using T [of "Some 0" None "Some 0" 0 24 0] h1 g1 unfolding e1 by blast
  then have l1: "calculate_engagement_level (Some 0) None (Some 0) = Low"
    unfolding e1 b1 f .
  have e2: "spec_engagement_score (Some 5) (Some 1) (Some 0) = 1 / 2"
    by (simp add: spec_engagement_score_def fillna_def)
  have b2: "spec_engagement_bin (1 / 2) = Medium" by (simp add: spec_engagement_bin_def)
  have g2: "(1::real) / 2 ^ 44 < \<bar>1 / 2 - 0.3\<bar>" "(1::real) / 2 ^ 44 < \<bar>1 / 2 - 0.7\<bar>"
    by simp_all
  have h2: "(0::real) \<le> 5 \<and> (5::real) \<le> 100 \<and> (0::real) \<le> 1 \<and> - 1 \<le> (0::real) \<and> (0::real) \<le> 1"
    by simp
  have "calculate_engagement_level (Some 5) (Some 1) (Some 0) =
      spec_engagement_bin (spec_engagement_score (Some 5) (Some 1) (Some 0))"
    using T [of "Some 0" None "Some 0" 5 1 0] h2 g2 unfolding e2 by blast
  then have l2: "calculate_engagement_level (Some 5) (Some 1) (Some 0) = Medium"
    unfolding e2 b2 .
  show ?thesis using e1 b1 g1 l1 e2 b2 g2 l2 by simp
qed

lemma level_post_1_0: "calculate_engagement_level (Some 5) (Some 1) (Some 0) = Medium"
  by (simp only: calculate_engagement_level_def engagement_scores_def fillna_def Let_def
        option.case cut_def)
     (simp add: double_defs)

lemma level_post_9_neg: "calculate_engagement_level (Some 5) (Some 9) (Some (- (3 / 5))) = Low"
  by (simp only: calculate_engagement_level_def engagement_scores_def fillna_def Let_def
        option.case cut_def)
     (simp add: double_defs)

lemma count_list_pos: "x \<in> set xs \<Longrightarrow> 0 < count_list xs x"
  using count_list_0_iff [of xs x] by (cases "count_list xs x") auto

lemma fold_max_eq_Max: "fold max xs (a::nat) = Max (insert a (set xs))"
  using Max.set_eq_fold [of a xs] by simp

lemma set_unique_from: "set (unique_from seen xs) = set seen \<union> set xs"
  by (induction seen xs rule: unique_from.induct) auto

lemma set_unique: "set (unique xs) = set xs"
  by (simp add: unique_def set_unique_from)

lemma distinct_unique_from: "distinct seen \<Longrightarrow> distinct (unique_from seen xs)"
  by (induction seen xs rule: unique_from.induct) auto

lemma distinct_unique: "distinct (unique xs)"
  by (simp add: unique_def distinct_unique_from)

lemma hd_sort_key_least:
  assumes "ys \<noteq> []"
  shows "hd (sort_key f ys) \<in> set ys \<and> (\<forall>y\<in>set ys. f (hd (sort_key f ys)) \<le> f y)"
proof -
  obtain z zs where zs: "sort_key f ys = z # zs"
    using assms by (metis length_0_conv length_sort list.exhaust)
  have "sorted (map f (z # zs))" using sorted_sort_key [of f ys] zs by simp
  then have "\<forall>y\<in>set (z # zs). f z \<le> f y" by auto
  moreover have "set (z # zs) = set ys" using set_sort [of f ys] zs by simp
  ultimately show ?thesis using zs by auto
qed

lemma top_count_attained:
  assumes "xs \<noteq> []"
  shows "\<exists>v\<in>set xs. count_list xs v = fold max (map (count_list xs) xs) 0"
proof -
  let ?S = "insert 0 (set (map (count_list xs) xs))"
  have "Max ?S \<in> ?S" by (rule Max_in) auto
  moreover obtain x where x: "x \<in> set xs" using assms by (cases xs) auto
  then have "count_list xs x \<in> ?S" "0 < count_list xs x"
    by (auto simp: count_list_pos)
  then have "0 < Max ?S" by (meson List.finite_set Max_ge finite.insertI less_le_trans)
  ultimately have "Max ?S \<in> set (map (count_list xs) xs)" by auto
  then show ?thesis by (auto simp: fold_max_eq_Max)
qed

lemma count_le_top: "count_list xs v \<le> fold max (map (count_list xs) xs) 0"
proof (cases "v \<in> set xs")
  case True
  then have "count_list xs v \<in> insert 0 (set (map (count_list xs) xs))" by auto
  then show ?thesis unfolding fold_max_eq_Max by (intro Max_ge) auto
next
  case False
  then show ?thesis by (simp add: count_list_0_iff)
qed

lemma iloc0_mode:
  assumes "xs \<noteq> []"
  shows "\<exists>b. iloc0 (mode xs) = Inr b \<and> b \<in> set xs \<and>
           (\<forall>b'. count_list xs b' \<le> count_list xs b) \<and>
           (\<forall>b'. count_list xs b' = count_list xs b \<longrightarrow> engagement_code b \<le> engagement_code b')"
proof -
  let ?top = "fold max (map (count_list xs) xs) 0"
  let ?ys = "remdups (filter (\<lambda>v. count_list xs v = ?top) xs)"
  have ne: "?ys \<noteq> []" using top_count_attained [OF assms] by (auto simp: filter_empty_conv)
  let ?b = "hd (sort_key engagement_code ?ys)"
  from hd_sort_key_least [OF ne, of engagement_code]
  have b: "?b \<in> set ?ys" "\<forall>y\<in>set ?ys. engagement_code ?b \<le> engagement_code y" by auto
  have m: "mode xs = sort_key engagement_code ?ys" by (simp add: mode_def Let_def)
  have "sort_key engagement_code ?ys \<noteq> []" using ne by (metis length_0_conv length_sort)
  then have i: "iloc0 (mode xs) = Inr ?b"
    by (cases "sort_key engagement_code ?ys") (auto simp: iloc0_def m)
  have c: "count_list xs ?b = ?top" "?b \<in> set xs" using b(1) by auto
  have le: "\<forall>b'. count_list xs b' \<le> count_list xs ?b" using c(1) count_le_top by metis
  have tie: "\<forall>b'. count_list xs b' = count_list xs ?b \<longrightarrow> engagement_code ?b \<le> engagement_code b'"
  proof (intro allI impI)
    fix b' assume e: "count_list xs b' = count_list xs ?b"
    have "0 < count_list xs ?b" using c(2) by (rule count_list_pos)
    then have "b' \<in> set xs" using e by (metis count_list_0_iff less_numeral_extra(3))
    then have "b' \<in> set ?ys" using e c(1) by simp
    then show "engagement_code ?b \<le> engagement_code b'" using b(2) by blast
  qed
  show ?thesis using i c(2) le tie by blast
qed

lemma analyze_users_lookup:
  "analyze_users df users = Inr table \<Longrightarrow> map_of table user = Some p \<Longrightarrow>
   user \<in> set users \<and> user_metrics (posts_of user df) = Inr p"
proof (induction users arbitrary: table)
  case Nil
  then show ?case by simp
next
  case (Cons u users)
  then show ?case
    by (auto split: sum.splits if_splits)
qed

lemma user_metrics_total:
  "\<exists>p. user_metrics user_posts = Inr p"
proof (cases "user_posts = []")
  case True
  then show ?thesis by (simp add: user_metrics_def)
next
  case False
  then have "map row_engagement_level user_posts \<noteq> []" by simp
  from iloc0_mode [OF this] obtain b where
    "iloc0 (mode (map row_engagement_level user_posts)) = Inr b" by blast
  then show ?thesis using False by (simp add: user_metrics_def)
qed

lemma analyze_users_total:
  "\<exists>table. analyze_users df users = Inr table \<and> map fst table = users"
proof (induction users)
  case Nil
  then show ?case by simp
next
  case (Cons u users)
  obtain p where "user_metrics (posts_of u df) = Inr p" using user_metrics_total by blast
  with Cons show ?case by auto
qed

lemma user_metrics_level:
  assumes "user_posts \<noteq> []" "user_metrics user_posts = Inr p"
  shows "iloc0 (mode (map row_engagement_level user_posts)) = Inr b \<Longrightarrow>
         engagement_level p = engagement_label b"
  using assms by (auto simp: user_metrics_def)

text \<open>
  Claim C4, amended: \<open>analyze_user_behavior\<close> returns one profile per author, and the
  engagement level of each profile is a most frequent bin among the author's posts; when
  several bins are tied for most frequent, the one that comes first in the order low,
  medium, high is taken (the modes are sorted before the first is read), whatever the
  post order.
\<close>

theorem C4_engagement_level_is_lowest_mode:
  "\<exists>table. analyze_user_behavior df = Inr table \<and>
     map fst table = unique (map row_author df) \<and>
     (\<forall>user p. map_of table user = Some p \<longrightarrow>
        (\<exists>b. engagement_level p = engagement_label b \<and>
             b \<in> set (map row_engagement_level (posts_of user df)) \<and>
             (\<forall>b'. count_list (map row_engagement_level (posts_of user df)) b'
                    \<le> count_list (map row_engagement_level (posts_of user df)) b) \<and>
             (\<forall>b'. count_list (map row_engagement_level (posts_of user df)) b'
                    = count_list (map row_engagement_level (posts_of user df)) b
                  \<longrightarrow> engagement_code b \<le> engagement_code b')))"
proof -
  obtain table where t: "analyze_user_behavior df = Inr table"
      "map fst table = unique (map row_author df)"
    using analyze_users_total [of df "unique (map row_author df)"]
    by (auto simp: analyze_user_behavior_def)
  have "\<exists>b. engagement_level p = engagement_label b \<and>
             b \<in> set (map row_engagement_level (posts_of user df)) \<and>
             (\<forall>b'. count_list (map row_engagement_level (posts_of user df)) b'
                    \<le> count_list (map row_engagement_level (posts_of user df)) b) \<and>
             (\<forall>b'. count_list (map row_engagement_level (posts_of user df)) b'
                    = count_list (map row_engagement_level (posts_of user df)) b
                  \<longrightarrow> engagement_code b \<le> engagement_code b')"
    if look: "map_of table user = Some p" for user p
  proof -
    from analyze_users_lookup [OF t(1) [unfolded analyze_user_behavior_def] look]
    have u: "user \<in> set (map row_author df)" and m: "user_metrics (posts_of user df) = Inr p"
      by (auto simp: set_unique)
    have ne: "posts_of user df \<noteq> []" using u by (auto simp: posts_of_def filter_empty_conv)
    then have "map row_engagement_level (posts_of user df) \<noteq> []" by simp
    from iloc0_mode [OF this] obtain b where b:
      "iloc0 (mode (map row_engagement_level (posts_of user df))) = Inr b"
      "b \<in> set (map row_engagement_level (posts_of user df))"
      "\<forall>b'. count_list (map row_engagement_level (posts_of user df)) b'
                    \<le> count_list (map row_engagement_level (posts_of user df)) b"
      "\<forall>b'. count_list (map row_engagement_level (posts_of user df)) b'
                    = count_list (map row_engagement_level (posts_of user df)) b
                  \<longrightarrow> engagement_code b \<le> engagement_code b'"
      by blast
    have "engagement_level p = engagement_label b"
      using user_metrics_level [OF ne m b(1)] .
    then show ?thesis using b(2-4) by blast
  qed
  then show ?thesis using t by blast
qed

lemma tied_eval:
  "analyze_user_behavior tied_posts =
     Inr [(''ann'', \<lparr>avg_response_time = 5, message_frequency = 2,
          avg_message_length = 10, sentiment_mean = - 0.3,
          engagement_level = ''low'', active_hours = 1,
          weekend_activity = 0\<rparr>)]"
  by (simp add: analyze_user_behavior_def tied_posts_def post_with_def unique_def posts_of_def
      user_metrics_def mode_def iloc0_def engagement_code_def engagement_label_def mean_def
      fillna_def level_post_1_0 level_post_9_neg)

text \<open>
  Claim C4 as stated fails: an author with a medium post (five comments, response time
  1, sentiment 0) followed by a low post (five comments, response time 9, sentiment -0.6)
  has the two bins tied; the profile says low, the first bin met in post order is medium.
\<close>

theorem C4_tie_not_first_encountered:
  "map_sum id (map (\<lambda>(u, p). (u, engagement_level p))) (analyze_user_behavior tied_posts)
     = Inr [(''ann'', ''low'')] \<and>
   map row_engagement_level tied_posts = [Medium, Low] \<and>
   engagement_label (spec_mode_first_encountered (map row_engagement_level tied_posts))
     = ''medium''"
  by (simp add: tied_eval)
     (simp add: tied_posts_def post_with_def spec_mode_first_encountered_def engagement_label_def
        level_post_1_0 level_post_9_neg)

text \<open>
  The amended claim C4 on the two tied posts: the profile of the author exists, its level
  is low, and low is tied with medium and comes before it.
\<close>

theorem C4_engagement_level_is_lowest_mode_witness:
  "\<exists>table p. analyze_user_behavior tied_posts = Inr table \<and>
      map_of table ''ann'' = Some p \<and> engagement_level p = ''low'' \<and>
      Low \<in> set (map row_engagement_level (posts_of ''ann'' tied_posts)) \<and>
      count_list (map row_engagement_level (posts_of ''ann'' tied_posts)) Medium
        = count_list (map row_engagement_level (posts_of ''ann'' tied_posts)) Low \<and>
      engagement_code Low \<le> engagement_code Medium"
proof -
  from C4_engagement_level_is_lowest_mode [of tied_posts]
  obtain table where t: "analyze_user_behavior tied_posts = Inr table" by blast
  then show ?thesis
    by (simp add: tied_eval)
       (auto simp add: tied_posts_def post_with_def posts_of_def engagement_code_def
          level_post_1_0 level_post_9_neg)
qed


















lemma qcut3_Inr:
  assumes "qcut3 vs = Inr cats"
  shows "dropna vs \<noteq> [] \<and> distinct (tercile_edges (dropna vs)) \<and>
         cats = map (\<lambda>v. case v of None \<Rightarrow> None
                        | Some x \<Rightarrow> bin_label (tercile_edges (dropna vs)) x) vs"
  using assms by (auto simp: qcut3_def Let_def split: if_splits)



































lemmas knn_defs = get_recommendations_def kneighbors_def cosine_distance_def normalize_def
  row_norm_def dot_def

lemma kneighbors_ok:
  assumes "\<not> list_ex (\<lambda>row. length row \<noteq> length x) X" "0 < k" "k \<le> int (length X)"
  shows "kneighbors (Some X) x k =
     Inr (map (\<lambda>i. cosine_distance x (X ! i))
            (take (nat k) (sort_key (\<lambda>i. map (cosine_distance x) X ! i) [0..<length X])),
          take (nat k) (sort_key (\<lambda>i. map (cosine_distance x) X ! i) [0..<length X]))"
proof -
  let ?ord = "take (nat k) (sort_key (\<lambda>i. map (cosine_distance x) X ! i) [0..<length X])"
  have "set ?ord \<subseteq> {0..<length X}"
    using set_take_subset [of "nat k" "sort_key (\<lambda>i. map (cosine_distance x) X ! i) [0..<length X]"]
    by simp
  then have "map (\<lambda>i. map (cosine_distance x) X ! i) ?ord = map (\<lambda>i. cosine_distance x (X ! i)) ?ord"
    by (intro map_cong) auto
  then show ?thesis using assms by (simp add: kneighbors_def Let_def)
qed

lemma order_facts:
  fixes key :: "nat \<Rightarrow> real"
  assumes "0 < N"
  shows "\<exists>j rest. sort_key key [0..<N] = j # rest \<and> j < N \<and> j \<notin> set rest \<and>
           set rest \<subseteq> {0..<N} \<and> length rest = N - 1 \<and>
           (\<forall>k<N. key j \<le> key k) \<and> sorted (map key (j # rest))"
proof -
  let ?o = "sort_key key [0..<N]"
  have ne: "[0..<N] \<noteq> []" using assms by simp
  then have "?o \<noteq> []" by (metis length_0_conv length_sort)
  then obtain j rest where o: "?o = j # rest" by (cases ?o) auto
  have d: "distinct ?o" by simp
  have s: "set ?o = {0..<N}" by simp
  have srt: "sorted (map key ?o)" by (rule sorted_sort_key)
  have l: "length ?o = N" by simp
  from hd_sort_key_least [OF ne, of key] o
  have least: "\<forall>k<N. key j \<le> key k" by simp
  show ?thesis using o d s srt l least
    by (metis (no_types, lifting) add_diff_cancel_left' atLeastLessThan_iff distinct.simps(2)
        length_Cons list.set_intros(1) plus_1_eq_Suc set_subset_Cons subset_trans
        subset_refl)
qed


lemma recommendations_shape:
  assumes dims: "\<not> list_ex (\<lambda>row. length row \<noteq> length q) X"
    and n0: "0 \<le> n" and nN: "n + 1 \<le> int (length X)"
  shows "\<exists>j idx.
           kneighbors (Some X) q (n + 1) =
             Inr (map (\<lambda>i. cosine_distance q (X ! i)) (j # idx), j # idx) \<and>
           get_recommendations (Some X) q n =
             Inr (idx, map (\<lambda>i. cosine_distance q (X ! i)) idx) \<and>
           j < length X \<and> j \<notin> set idx \<and> set idx \<subseteq> {0..<length X} \<and>
           length idx = nat n \<and>
           (\<forall>k<length X. cosine_distance q (X ! j) \<le> cosine_distance q (X ! k)) \<and>
           sorted (map (\<lambda>i. cosine_distance q (X ! i)) idx)"
proof -
  let ?key = "\<lambda>i. map (cosine_distance q) X ! i"
  let ?d = "\<lambda>i. cosine_distance q (X ! i)"
  have pos: "0 < length X" using n0 nN by linarith
  from order_facts [OF pos, of ?key] obtain j rest where
    o: "sort_key ?key [0..<length X] = j # rest" and j: "j < length X"
    and jn: "j \<notin> set rest" and sub: "set rest \<subseteq> {0..<length X}"
    and len: "length rest = length X - 1"
    and least: "\<forall>k<length X. ?key j \<le> ?key k"
    and srt: "sorted (map ?key (j # rest))"
    by blast
  let ?idx = "take (nat n) rest"
  have tk: "take (nat (n + 1)) (j # rest) = j # ?idx"
    using n0 by (simp add: nat_add_distrib)
  have kn: "kneighbors (Some X) q (n + 1) = Inr (map ?d (j # ?idx), j # ?idx)"
    using kneighbors_ok [OF dims, of "n + 1"] n0 nN by (simp add: o tk)
  have gr: "get_recommendations (Some X) q n = Inr (?idx, map ?d ?idx)"
    by (simp add: get_recommendations_def kn)
  have sub': "set ?idx \<subseteq> set rest" by (rule set_take_subset)
  have jn': "j \<notin> set ?idx" using jn sub' by blast
  have l: "length ?idx = nat n" using len n0 nN by simp
  have least': "\<forall>k<length X. ?d j \<le> ?d k" using least j by simp
  have "sorted (map ?key rest)" using srt by simp
  then have "sorted (take (nat n) (map ?key rest))" by (rule sorted_wrt_take)
  then have "sorted (map ?key ?idx)" by (simp add: take_map)
  moreover have "map ?key ?idx = map ?d ?idx"
    using sub sub' by (intro map_cong) auto
  ultimately have s: "sorted (map ?d ?idx)" by simp
  show ?thesis using kn gr j jn' sub sub' l least' s by blast
qed

text \<open>
  Claim C10, amended: for every query vector of the fitted width, in the fitted set or
  not, and every \<open>n_recommendations \<ge> 0\<close>: when the fitted set has at least
  \<open>n_recommendations + 1\<close> records, \<open>get_recommendations\<close> returns exactly
  \<open>n_recommendations\<close> pairs, and the first neighbour reported by the index, a record at
  the least distance from the query, is not among them; when the fitted set is smaller,
  the call fails with \<open>ValueError\<close>.
\<close>

theorem C10_first_neighbour_dropped:
  "\<not> list_ex (\<lambda>row. length row \<noteq> length q) X \<Longrightarrow> 0 \<le> n \<Longrightarrow>
   (n + 1 \<le> int (length X) \<longrightarrow>
      (\<exists>j idx. kneighbors (Some X) q (n + 1) =
                  Inr (map (\<lambda>i. cosine_distance q (X ! i)) (j # idx), j # idx) \<and>
                get_recommendations (Some X) q n =
                  Inr (idx, map (\<lambda>i. cosine_distance q (X ! i)) idx) \<and>
                length idx = nat n \<and> j \<notin> set idx \<and> j < length X \<and>
                (\<forall>k<length X. cosine_distance q (X ! j) \<le> cosine_distance q (X ! k)))) \<and>
   (int (length X) < n + 1 \<longrightarrow> get_recommendations (Some X) q n = Inl ValueError)"
proof (intro conjI impI)
  assume a: "\<not> list_ex (\<lambda>row. length row \<noteq> length q) X" "0 \<le> n"
    "n + 1 \<le> int (length X)"
  from recommendations_shape [OF a]
  show "\<exists>j idx. kneighbors (Some X) q (n + 1) =
                  Inr (map (\<lambda>i. cosine_distance q (X ! i)) (j # idx), j # idx) \<and>
                get_recommendations (Some X) q n =
                  Inr (idx, map (\<lambda>i. cosine_distance q (X ! i)) idx) \<and>
                length idx = nat n \<and> j \<notin> set idx \<and> j < length X \<and>
                (\<forall>k<length X. cosine_distance q (X ! j) \<le> cosine_distance q (X ! k))"
    by blast
next
  assume "\<not> list_ex (\<lambda>row. length row \<noteq> length q) X" "0 \<le> n" "int (length X) < n + 1"
  then show "get_recommendations (Some X) q n = Inl ValueError"
    by (simp add: get_recommendations_def kneighbors_def)
qed

lemma kneighbors_is_metric: "kneighbors = kneighbors_metric cosine_distance"
  by (intro ext) (simp add: kneighbors_def kneighbors_metric_def)

lemma get_recommendations_is_metric:
  "get_recommendations = get_recommendations_metric cosine_distance"
  by (intro ext)
     (simp add: get_recommendations_def get_recommendations_metric_def kneighbors_is_metric)

lemma kneighbors_metric_ok:
  assumes "\<not> list_ex (\<lambda>row. length row \<noteq> length x) X" "0 < k" "k \<le> int (length X)"
  shows "kneighbors_metric d (Some X) x k =
     Inr (map (\<lambda>i. d x (X ! i))
            (take (nat k) (sort_key (\<lambda>i. map (d x) X ! i) [0..<length X])),
          take (nat k) (sort_key (\<lambda>i. map (d x) X ! i) [0..<length X]))"
proof -
  let ?ord = "take (nat k) (sort_key (\<lambda>i. map (d x) X ! i) [0..<length X])"
  have "set ?ord \<subseteq> {0..<length X}"
    using set_take_subset [of "nat k" "sort_key (\<lambda>i. map (d x) X ! i) [0..<length X]"]
    by simp
  then have "map (\<lambda>i. map (d x) X ! i) ?ord = map (\<lambda>i. d x (X ! i)) ?ord"
    by (intro map_cong) auto
  then show ?thesis using assms by (simp add: kneighbors_metric_def Let_def)
qed

lemma recommendations_metric_shape:
  assumes dims: "\<not> list_ex (\<lambda>row. length row \<noteq> length q) X"
    and n0: "0 \<le> n" and nN: "n + 1 \<le> int (length X)"
  shows "\<exists>j idx.
           get_recommendations_metric d (Some X) q n = Inr (idx, map (\<lambda>i. d q (X ! i)) idx) \<and>
           j < length X \<and> j \<notin> set idx \<and> set idx \<subseteq> {0..<length X} \<and>
           length idx = nat n \<and>
           (\<forall>k<length X. d q (X ! j) \<le> d q (X ! k)) \<and>
           sorted (map (\<lambda>i. d q (X ! i)) idx)"
proof -
  let ?key = "\<lambda>i. map (d q) X ! i"
  let ?d = "\<lambda>i. d q (X ! i)"
  have pos: "0 < length X" using n0 nN by linarith
  from order_facts [OF pos, of ?key] obtain j rest where
    o: "sort_key ?key [0..<length X] = j # rest" and j: "j < length X"
    and jn: "j \<notin> set rest" and sub: "set rest \<subseteq> {0..<length X}"
    and len: "length rest = length X - 1"
    and least: "\<forall>k<length X. ?key j \<le> ?key k"
    and srt: "sorted (map ?key (j # rest))"
    by blast
  let ?idx = "take (nat n) rest"
  have tk: "take (nat (n + 1)) (j # rest) = j # ?idx"
    using n0 by (simp add: nat_add_distrib)
  have kn: "kneighbors_metric d (Some X) q (n + 1) = Inr (map ?d (j # ?idx), j # ?idx)"
    using kneighbors_metric_ok [OF dims, of "n + 1" d] n0 nN by (simp add: o tk)
  have gr: "get_recommendations_metric d (Some X) q n = Inr (?idx, map ?d ?idx)"
    by (simp add: get_recommendations_metric_def kn)
  have sub': "set ?idx \<subseteq> set rest" by (rule set_take_subset)
  have jn': "j \<notin> set ?idx" using jn sub' by blast
  have l: "length ?idx = nat n" using len n0 nN by simp
  have least': "\<forall>k<length X. ?d j \<le> ?d k" using least j by simp
  have "sorted (map ?key rest)" using srt by simp
  then have "sorted (take (nat n) (map ?key rest))" by (rule sorted_wrt_take)
  then have "sorted (map ?key ?idx)" by (simp add: take_map)
  moreover have "map ?key ?idx = map ?d ?idx"
    using sub sub' by (intro map_cong) auto
  ultimately have s: "sorted (map ?d ?idx)" by simp
  show ?thesis using gr j jn' sub sub' l least' s by blast
qed

text \<open>
  Claim C7, amended: for every distance function the index may use (\<open>get_recommendations\<close>
  is the case of the cosine distance), every query vector and every \<open>n_recommendations\<close>:
  before fitting the call fails with \<open>NotFittedError\<close>; when \<open>n_recommendations\<close> is
  negative, the query has not the width of the fitted rows or the fitted set has fewer
  than \<open>n_recommendations + 1\<close> records, it fails with \<open>ValueError\<close>; otherwise it returns
  \<open>n_recommendations\<close> (index, distance) pairs of fitted records sorted by increasing
  distance, and a fitted record, in particular the one the query was taken from, is not
  among them provided its distance from the query is strictly less than that of every
  other fitted record.
\<close>

theorem C7_strictly_nearest_not_returned:
  "get_recommendations = get_recommendations_metric cosine_distance \<and>
   get_recommendations_metric d None q n = Inl NotFittedError \<and>
   (n < 0 \<or> list_ex (\<lambda>row. length row \<noteq> length q) X \<or> int (length X) < n + 1 \<longrightarrow>
      get_recommendations_metric d (Some X) q n = Inl ValueError) \<and>
   (0 \<le> n \<and> \<not> list_ex (\<lambda>row. length row \<noteq> length q) X \<and> n + 1 \<le> int (length X) \<longrightarrow>
      (\<exists>idx ds. get_recommendations_metric d (Some X) q n = Inr (idx, ds) \<and>
         length idx = nat n \<and> set idx \<subseteq> {0..<length X} \<and>
         ds = map (\<lambda>i. d q (X ! i)) idx \<and> sorted ds \<and>
         (\<forall>i<length X. (\<forall>k<length X. k \<noteq> i \<longrightarrow> d q (X ! i) < d q (X ! k))
              \<longrightarrow> i \<notin> set idx)))"
proof (intro conjI impI)
  show "get_recommendations = get_recommendations_metric cosine_distance"
    by (rule get_recommendations_is_metric)
  show "get_recommendations_metric d None q n = Inl NotFittedError"
    by (simp add: get_recommendations_metric_def kneighbors_metric_def)
next
  assume "n < 0 \<or> list_ex (\<lambda>row. length row \<noteq> length q) X \<or> int (length X) < n + 1"
  then show "get_recommendations_metric d (Some X) q n = Inl ValueError"
    by (auto simp: get_recommendations_metric_def kneighbors_metric_def)
next
  assume a: "0 \<le> n \<and> \<not> list_ex (\<lambda>row. length row \<noteq> length q) X \<and> n + 1 \<le> int (length X)"
  then have a1: "\<not> list_ex (\<lambda>row. length row \<noteq> length q) X" and a2: "0 \<le> n"
    and a3: "n + 1 \<le> int (length X)" by simp_all
  from recommendations_metric_shape [OF a1 a2 a3, of d] obtain j idx where
    gr: "get_recommendations_metric d (Some X) q n = Inr (idx, map (\<lambda>i. d q (X ! i)) idx)"
    and j: "j < length X" "j \<notin> set idx"
    and sub: "set idx \<subseteq> {0..<length X}" and len: "length idx = nat n"
    and least: "\<forall>k<length X. d q (X ! j) \<le> d q (X ! k)"
    and s: "sorted (map (\<lambda>i. d q (X ! i)) idx)"
    by blast
  have "i \<notin> set idx"
    if i: "i < length X"
      and strict: "\<forall>k<length X. k \<noteq> i \<longrightarrow> d q (X ! i) < d q (X ! k)"
    for i
  proof -
    have "j = i"
    proof (rule ccontr)
      assume "j \<noteq> i"
      with strict j(1) have "d q (X ! i) < d q (X ! j)" by blast
      moreover from least i have "d q (X ! j) \<le> d q (X ! i)" by blast
      ultimately show False by linarith
    qed
    with j(2) show ?thesis by simp
  qed
  with gr s sub len
  show "\<exists>idx ds. get_recommendations_metric d (Some X) q n = Inr (idx, ds) \<and>
         length idx = nat n \<and> set idx \<subseteq> {0..<length X} \<and>
         ds = map (\<lambda>i. d q (X ! i)) idx \<and> sorted ds \<and>
         (\<forall>i<length X. (\<forall>k<length X. k \<noteq> i \<longrightarrow> d q (X ! i) < d q (X ! k))
              \<longrightarrow> i \<notin> set idx)"
    by blast
qed

text \<open>
  Claim C7 as stated fails: in a fitted set with two equal rows, the query for the second
  row returns that very row (index 1, distance 0). Both rows give the same query, so
  under either order of the tie one of the two receives itself.
\<close>

theorem C7_duplicate_returns_itself:
  "twin_rows ! 0 = twin_rows ! 1 \<and>
   get_recommendations (Some twin_rows) (twin_rows ! 1) 1 = Inr ([1], [0])"
  by (simp add: knn_defs twin_rows_def)

text \<open>
  Claim C10 as stated fails: on a fitted set of one record a request for three
  recommendations raises instead of returning three pairs; and for a query that is not in
  the fitted set but at distance 0 from two fitted rows, one of these nearest rows is
  returned.
\<close>

theorem C10_not_always_n_pairs:
  "get_recommendations (Some single_row) [0, 1] 3 = Inl ValueError \<and>
   [1, 0] \<notin> set twin_rows_and_other \<and>
   kneighbors (Some twin_rows_and_other) [1, 0] 2 = Inr ([0, 0], [0, 1]) \<and>
   get_recommendations (Some twin_rows_and_other) [1, 0] 1 = Inr ([1], [0])"
  by (simp add: knn_defs single_row_def twin_rows_and_other_def)

text \<open>
  The amended claim C7 on three rows, queried with the first one: it is strictly nearest
  to itself and is not returned; a negative count, a query of another width and a fitted
  set that is too small raise \<open>ValueError\<close>, an index that was not fitted
  \<open>NotFittedError\<close>.
\<close>

theorem C7_strictly_nearest_not_returned_witness:
  "length three_rows = 3 \<and>
   cosine_distance (three_rows ! 0) (three_rows ! 0)
     < cosine_distance (three_rows ! 0) (three_rows ! 1) \<and>
   cosine_distance (three_rows ! 0) (three_rows ! 0)
     < cosine_distance (three_rows ! 0) (three_rows ! 2) \<and>
   get_recommendations (Some three_rows) (three_rows ! 0) 1 = Inr ([1], [1]) \<and>
   (0::nat) \<notin> set [1] \<and>
   get_recommendations (Some three_rows) [1, 0] (- 1) = Inl ValueError \<and>
   get_recommendations (Some three_rows) [1, 0, 0] 1 = Inl ValueError \<and>
   get_recommendations (Some single_row) [1, 0] 1 = Inl ValueError \<and>
   get_recommendations None [1, 0] 1 = Inl NotFittedError"
proof -
  note T = C7_strictly_nearest_not_returned
  have eq: "get_recommendations = get_recommendations_metric cosine_distance"
    using T [of cosine_distance "[]" 0 "[]"] by blast
  have len: "length three_rows = 3" by (simp add: three_rows_def)
  have a: "0 \<le> (1::int) \<and> \<not> list_ex (\<lambda>row. length row \<noteq> length (three_rows ! 0)) three_rows \<and>
      (1::int) + 1 \<le> int (length three_rows)"
    by (simp add: three_rows_def)
  have d1: "cosine_distance (three_rows ! 0) (three_rows ! 0)
      < cosine_distance (three_rows ! 0) (three_rows ! 1)"
    and d2: "cosine_distance (three_rows ! 0) (three_rows ! 0)
      < cosine_distance (three_rows ! 0) (three_rows ! 2)"
    by (simp_all add: three_rows_def knn_defs)
  have d: "\<forall>k<length three_rows. k \<noteq> 0 \<longrightarrow>
       cosine_distance (three_rows ! 0) (three_rows ! 0)
         < cosine_distance (three_rows ! 0) (three_rows ! k)"
    by (auto simp: three_rows_def knn_defs less_Suc_eq numeral_3_eq_3)
  have e: "get_recommendations (Some three_rows) (three_rows ! 0) 1 = Inr ([1], [1])"
    by (simp add: knn_defs three_rows_def)
  from T [of cosine_distance "three_rows ! 0" 1 three_rows] a obtain idx ds where
    r: "get_recommendations_metric cosine_distance (Some three_rows) (three_rows ! 0) 1
          = Inr (idx, ds)"
    and n: "\<forall>i<length three_rows.
               (\<forall>k<length three_rows. k \<noteq> i \<longrightarrow>
                    cosine_distance (three_rows ! 0) (three_rows ! i)
                      < cosine_distance (three_rows ! 0) (three_rows ! k))
              \<longrightarrow> i \<notin> set idx"
    by blast
  have "0 < length three_rows" by (simp add: len)
  with n d have "0 \<notin> set idx" by blast
  moreover from r e have "idx = [1]" by (simp add: eq)
  ultimately have m: "(0::nat) \<notin> set [1]" by simp
  have e1: "get_recommendations (Some three_rows) [1, 0] (- 1) = Inl ValueError"
    using T [of cosine_distance "[1, 0]" "- 1" three_rows] by (simp add: eq)
  have e2: "get_recommendations (Some three_rows) [1, 0, 0] 1 = Inl ValueError"
    using T [of cosine_distance "[1, 0, 0]" 1 three_rows] by (simp add: eq three_rows_def)
  have e3: "get_recommendations (Some single_row) [1, 0] 1 = Inl ValueError"
    using T [of cosine_distance "[1, 0]" 1 single_row] by (simp add: eq single_row_def)
  have e4: "get_recommendations None [1, 0] 1 = Inl NotFittedError"
    using T [of cosine_distance "[1, 0]" 1 "[]"] by (simp add: eq)
  show ?thesis using len d1 d2 e m e1 e2 e3 e4 by simp
qed

text \<open>
  The amended claim C10 on three rows and a query outside the fitted set, and on a fitted
  set that is too small.
\<close>

theorem C10_first_neighbour_dropped_witness:
  "\<not> list_ex (\<lambda>row. length row \<noteq> length [0, 2::real]) three_rows \<and>
   [0, 2] \<notin> set three_rows \<and>
   (1::int) + 1 \<le> int (length three_rows) \<and>
   kneighbors (Some three_rows) [0, 2] (1 + 1) = Inr ([0, 1], [1, 0]) \<and>
   get_recommendations (Some three_rows) [0, 2] 1 = Inr ([0], [1]) \<and>
   (1::nat) \<notin> set [0] \<and>
   \<not> list_ex (\<lambda>row. length row \<noteq> length [0, 1::real]) single_row \<and>
   int (length single_row) < 3 + 1 \<and>
   get_recommendations (Some single_row) [0, 1] 3 = Inl ValueError"
proof -
  have a: "\<not> list_ex (\<lambda>row. length row \<noteq> length [0, 2::real]) three_rows"
    by (simp add: three_rows_def)
  have a': "\<not> list_ex (\<lambda>row. length row \<noteq> length [0, 1::real]) single_row"
    by (simp add: single_row_def)
  have b: "(0::int) \<le> 1" by simp
  have c: "(1::int) + 1 \<le> int (length three_rows)" by (simp add: three_rows_def)
  have c': "int (length single_row) < 3 + 1" by (simp add: single_row_def)
  have o: "[0, 2] \<notin> set three_rows" by (simp add: three_rows_def)
  have k: "kneighbors (Some three_rows) [0, 2] (1 + 1) = Inr ([0, 1], [1, 0])"
    by (simp add: knn_defs three_rows_def)
  from C10_first_neighbour_dropped [OF a b] c obtain j idx where
    kn: "kneighbors (Some three_rows) [0, 2] (1 + 1) =
           Inr (map (\<lambda>i. cosine_distance [0, 2] (three_rows ! i)) (j # idx), j # idx)"
    and gr: "get_recommendations (Some three_rows) [0, 2] 1 =
           Inr (idx, map (\<lambda>i. cosine_distance [0, 2] (three_rows ! i)) idx)"
    and jn: "j \<notin> set idx"
    by blast
  from kn k have ji: "j = 1" "idx = [0]" by simp_all
  have g: "get_recommendations (Some three_rows) [0, 2] 1 = Inr ([0], [1])"
    using gr unfolding ji by (simp add: knn_defs three_rows_def)
  have e: "get_recommendations (Some single_row) [0, 1] 3 = Inl ValueError"
    using C10_first_neighbour_dropped [OF a', of 3] c' by simp
  show ?thesis using a a' c c' o k g e jn ji by simp
qed

end
